theory Spec2Isabelle
  imports Main "HOL-Library.Sublist" "HOL-Library.Word"
begin

unbundle bit_operations_syntax

section \<open>Strings and errors shared by the packages\<close>

text \<open>
  Go strings are byte sequences; they are modelled as \<^typ>\<open>string\<close> (a list of
  \<^typ>\<open>char\<close>, one per byte). \<open>time.Time\<close> values are modelled as Unix seconds.
\<close>

type_synonym time = int

text \<open>\<open>strings.HasPrefix(s, p)\<close>.\<close>

definition HasPrefix :: "string \<Rightarrow> string \<Rightarrow> bool" where
  "HasPrefix s p = prefix p s"

text \<open>\<open>strings.Contains(s, sub)\<close>: some suffix of \<open>s\<close> starts with \<open>sub\<close>.\<close>

fun Contains :: "string \<Rightarrow> string \<Rightarrow> bool" where
  "Contains [] sub = (sub = [])"
| "Contains (c # cs) sub = (prefix sub (c # cs) \<or> Contains cs sub)"

text \<open>
  \<open>strings.ToLower\<close> and \<open>strings.EqualFold\<close> on ASCII letters (bytes outside
  \<open>A\<close>..\<open>Z\<close> are left as they are).
\<close>

definition lower_char :: "char \<Rightarrow> char" where
  "lower_char c =
     (case map_of (zip ''ABCDEFGHIJKLMNOPQRSTUVWXYZ'' ''abcdefghijklmnopqrstuvwxyz'') c of
        None \<Rightarrow> c
      | Some l \<Rightarrow> l)"

definition ToLower :: "string \<Rightarrow> string" where
  "ToLower s = map lower_char s"

definition EqualFold :: "string \<Rightarrow> string \<Rightarrow> bool" where
  "EqualFold s t = (ToLower s = ToLower t)"

text \<open>
  The errors the modelled functions return. Go builds them with \<open>fmt.Errorf\<close>; each
  constructor stands for one message format of the source, with the values the format
  interpolates.
\<close>

datatype error =
    InvalidMediaPath                \<comment> \<open>"invalid media path: %v"\<close>
  | PathTraversal                   \<comment> \<open>"path traversal not allowed"\<close>
  | OutsideAllowedDirs              \<comment> \<open>"media path outside allowed directories"\<close>
  | SqlError                        \<comment> \<open>an error of the SQL driver, passed on as it is\<close>
  | ErrNoRows                       \<comment> \<open>\<open>sql.ErrNoRows\<close>: \<open>QueryRow.Scan\<close> found no row\<close>
  | BeginFailed                     \<comment> \<open>"failed to begin transaction: %v"\<close>
  | UpdateConfigFailed              \<comment> \<open>"failed to update webhook config: %v"\<close>
  | RowsAffectedFailed              \<comment> \<open>"failed to get rows affected: %v"\<close>
  | WebhookNotFound int             \<comment> \<open>"webhook with ID %d not found"\<close>
  | DeleteTriggersFailed            \<comment> \<open>"failed to delete existing triggers: %v"\<close>
  | InsertTriggerFailed nat         \<comment> \<open>"failed to insert trigger %d: %v"\<close>
  | LastInsertIdFailed nat          \<comment> \<open>"failed to get last insert ID for trigger %d: %v"\<close>
  | CommitFailed                    \<comment> \<open>"failed to commit transaction: %v"\<close>
  | NameRequired                    \<comment> \<open>"webhook name is required"\<close>
  | NameTooLong                     \<comment> \<open>"webhook name must be less than 256 characters"\<close>
  | URLRequired                     \<comment> \<open>"webhook URL is required"\<close>
  | URLTooLong                      \<comment> \<open>"webhook URL must be less than 2048 characters"\<close>
  | URLScheme                       \<comment> \<open>"webhook URL must start with http:// or https://"\<close>
  | InvalidURL                      \<comment> \<open>"invalid webhook URL: %v"\<close>
  | HostBlocked string              \<comment> \<open>"webhook URL hostname is blocked: %s"\<close>
  | ResolveFailed                   \<comment> \<open>"failed to resolve webhook URL hostname: %v"\<close>
  | ResolvesToPrivate string "8 word list"
                                    \<comment> \<open>"webhook URL resolves to private/reserved IP: %s -> %s"\<close>
  | TriggerTypeRequired             \<comment> \<open>"trigger type is required"\<close>
  | InvalidTriggerType string       \<comment> \<open>"invalid trigger type: %s"\<close>
  | InvalidMatchType string         \<comment> \<open>"invalid match type: %s"\<close>
  | InvalidRegex string             \<comment> \<open>"invalid regex pattern '%s': %v"\<close>
  | MarshalFailed                   \<comment> \<open>"failed to marshal test payload: %v"\<close>
  | TestFailed int string           \<comment> \<open>"test webhook failed: status %d, response: %s"\<close>

section \<open>Package whatsapp: the media-path guard (messages.go)\<close>

subsection \<open>\<open>path/filepath\<close> on Unix\<close>

text \<open>
  \<open>filepath.Clean\<close> is lexical. It drops empty and \<open>.\<close> elements, removes an inner
  \<open>..\<close> together with the element before it, drops \<open>..\<close> at the start of a rooted
  path, keeps it at the start of a relative one, and returns \<open>.\<close> for an empty result.
  The model works on the \<open>/\<close>-separated elements; \<open>clean_elems\<close> keeps the output
  elements in reverse (a stack), as the library's buffer keeps the output so far.
\<close>

fun split_path :: "string \<Rightarrow> string list" where
  "split_path [] = [[]]"
| "split_path (c # cs) =
     (if c = CHR ''/'' then [] # split_path cs
      else (case split_path cs of
              [] \<Rightarrow> [[c]]
            | e # es \<Rightarrow> (c # e) # es))"

fun join_path :: "string list \<Rightarrow> string" where
  "join_path [] = []"
| "join_path [e] = e"
| "join_path (e # es) = e @ ''/'' @ join_path es"

fun clean_elems :: "bool \<Rightarrow> string list \<Rightarrow> string list \<Rightarrow> string list" where
  "clean_elems rooted [] out = out"
| "clean_elems rooted (e # es) out =
     (if e = [] \<or> e = ''.'' then clean_elems rooted es out
      else if e = ''..'' then
        (case out of
           [] \<Rightarrow> clean_elems rooted es (if rooted then [] else [''..''])
         | el # below \<Rightarrow>
             if el = ''..'' then clean_elems rooted es (''..'' # out)
             else clean_elems rooted es below)
      else clean_elems rooted es (e # out))"

definition Clean :: "string \<Rightarrow> string" where
  "Clean path =
     (if path = [] then ''.''
      else
        let rooted = (hd path = CHR ''/'');
            body = join_path (rev (clean_elems rooted (split_path path) []))
        in if rooted then CHR ''/'' # body
           else if body = [] then ''.'' else body)"

text \<open>
  \<open>filepath.Abs(path)\<close>: an absolute path is cleaned; a relative one is joined to the
  working directory, and the error of \<open>os.Getwd\<close> is passed on. \<open>getwd\<close> is the result
  of \<open>os.Getwd\<close> (\<open>None\<close> when it fails).
\<close>

definition IsAbs :: "string \<Rightarrow> bool" where
  "IsAbs path = HasPrefix path ''/''"

definition Abs :: "string option \<Rightarrow> string \<Rightarrow> string option" where
  "Abs getwd path =
     (if IsAbs path then Some (Clean path)
      else (case getwd of
              None \<Rightarrow> None
            | Some wd \<Rightarrow> Some (Clean (wd @ ''/'' @ path))))"

subsection \<open>\<open>validateMediaPath\<close>\<close>

definition allowedMediaDirs :: "string list" where
  "allowedMediaDirs = [''/app/media'', ''/app/store'', ''/tmp'']"

text \<open>
  The loop over \<open>allowedMediaDirs\<close>: a directory whose \<open>filepath.Abs\<close> fails is skipped
  (\<open>continue\<close>), the first directory that is a string prefix of \<open>absPath\<close> accepts.
\<close>

fun allowed_loop :: "string option \<Rightarrow> string \<Rightarrow> string list \<Rightarrow> bool" where
  "allowed_loop getwd absPath [] = False"
| "allowed_loop getwd absPath (allowedDir # dirs) =
     (case Abs getwd allowedDir of
        None \<Rightarrow> allowed_loop getwd absPath dirs
      | Some allowedAbs \<Rightarrow>
          if HasPrefix absPath allowedAbs then True
          else allowed_loop getwd absPath dirs)"

text \<open>
  \<open>validateMediaPath\<close>; \<open>None\<close> is Go's \<open>nil\<close> error. \<open>disable_path_check\<close> is
  \<open>os.Getenv("DISABLE_PATH_CHECK") == "true"\<close>.
\<close>

definition validateMediaPath :: "bool \<Rightarrow> string option \<Rightarrow> string \<Rightarrow> error option" where
  "validateMediaPath disable_path_check getwd mediaPath =
     (if mediaPath = [] then None
      else
        (case Abs getwd (Clean mediaPath) of
           None \<Rightarrow> Some InvalidMediaPath
         | Some absPath \<Rightarrow>
             if Contains mediaPath ''..'' then Some PathTraversal
             else if disable_path_check then None
             else if allowed_loop getwd absPath allowedMediaDirs then None
             else Some OutsideAllowedDirs))"

text \<open>
  What it means for a path to lie inside a directory: it is the directory itself or
  continues it after a separator. This is the notion the allow-list is meant to decide;
  it is not part of the source.
\<close>

definition within_dir :: "string \<Rightarrow> string \<Rightarrow> bool" where
  "within_dir dir path = (path = dir \<or> HasPrefix path (dir @ ''/''))"

section \<open>Package types (webhook entities)\<close>

text \<open>
  The structs of package \<open>types\<close>. A field keeps its Go name; where two structs share a
  field name, the record's name is put in front (\<open>ID\<close> is \<open>trg_ID\<close>, \<open>cfg_ID\<close>, ...).
  Go's \<open>int\<close> is modelled as \<^typ>\<open>int\<close>.
\<close>

record WebhookTrigger =
  trg_ID :: int
  trg_WebhookConfigID :: int
  TriggerType :: string
  TriggerValue :: string
  MatchType :: string
  trg_Enabled :: bool

record WebhookConfig =
  cfg_ID :: int
  cfg_Name :: string
  WebhookURL :: string
  SecretToken :: string
  cfg_Enabled :: bool
  cfg_CreatedAt :: time
  cfg_UpdatedAt :: time
  Triggers :: "WebhookTrigger list"

record WebhookConfigResponse =
  rsp_ID :: int
  rsp_Name :: string
  rsp_WebhookURL :: string
  HasSecret :: bool
  SecretHint :: string
  rsp_Enabled :: bool
  rsp_CreatedAt :: time
  rsp_UpdatedAt :: time
  rsp_Triggers :: "WebhookTrigger list"

record WebhookLog =
  log_ID :: int
  log_WebhookConfigID :: int
  log_MessageID :: string
  log_ChatJID :: string
  log_TriggerType :: string
  log_TriggerValue :: string
  log_Payload :: string
  ResponseStatus :: int
  ResponseBody :: string
  AttemptCount :: int
  DeliveredAt :: "time option"
  log_CreatedAt :: time

definition MaskSecret :: "string \<Rightarrow> string" where
  "MaskSecret secret =
     (if secret = [] then []
      else if length secret \<le> 8 then ''****''
      else take 4 secret @ ''****'' @ drop (length secret - 4) secret)"

definition ToResponse :: "WebhookConfig \<Rightarrow> WebhookConfigResponse" where
  "ToResponse c =
     \<lparr> rsp_ID = cfg_ID c,
       rsp_Name = cfg_Name c,
       rsp_WebhookURL = WebhookURL c,
       HasSecret = (SecretToken c \<noteq> []),
       SecretHint = MaskSecret (SecretToken c),
       rsp_Enabled = cfg_Enabled c,
       rsp_CreatedAt = cfg_CreatedAt c,
       rsp_UpdatedAt = cfg_UpdatedAt c,
       rsp_Triggers = Triggers c \<rparr>"

subsection \<open>What \<open>encoding/json\<close> writes for these structs\<close>

text \<open>
  \<open>json.Encoder.Encode\<close> writes every exported field of a struct under the name of its
  \<open>json\<close> tag; a field tagged \<open>omitempty\<close> is left out when it is empty. \<open>JTime\<close> stands
  for the RFC 3339 text of a \<open>time.Time\<close>. (Go writes \<open>null\<close> for a nil slice; the model
  writes the empty array for it.)
\<close>

datatype json =
    JNull
  | JBool bool
  | JInt int
  | JTime time
  | JStr string
  | JArr "json list"
  | JObj "(string \<times> json) list"

definition json_WebhookTrigger :: "WebhookTrigger \<Rightarrow> json" where
  "json_WebhookTrigger t =
     JObj [(''id'', JInt (trg_ID t)),
           (''webhook_config_id'', JInt (trg_WebhookConfigID t)),
           (''trigger_type'', JStr (TriggerType t)),
           (''trigger_value'', JStr (TriggerValue t)),
           (''match_type'', JStr (MatchType t)),
           (''enabled'', JBool (trg_Enabled t))]"

definition json_WebhookConfig :: "WebhookConfig \<Rightarrow> json" where
  "json_WebhookConfig c =
     JObj [(''id'', JInt (cfg_ID c)),
           (''name'', JStr (cfg_Name c)),
           (''webhook_url'', JStr (WebhookURL c)),
           (''secret_token'', JStr (SecretToken c)),
           (''enabled'', JBool (cfg_Enabled c)),
           (''created_at'', JTime (cfg_CreatedAt c)),
           (''updated_at'', JTime (cfg_UpdatedAt c)),
           (''triggers'', JArr (map json_WebhookTrigger (Triggers c)))]"

definition json_WebhookConfigResponse :: "WebhookConfigResponse \<Rightarrow> json" where
  "json_WebhookConfigResponse r =
     JObj ([(''id'', JInt (rsp_ID r)),
            (''name'', JStr (rsp_Name r)),
            (''webhook_url'', JStr (rsp_WebhookURL r)),
            (''has_secret'', JBool (HasSecret r))]
           @ (if SecretHint r = [] then [] else [(''secret_hint'', JStr (SecretHint r))])
           @ [(''enabled'', JBool (rsp_Enabled r)),
              (''created_at'', JTime (rsp_CreatedAt r)),
              (''updated_at'', JTime (rsp_UpdatedAt r)),
              (''triggers'', JArr (map json_WebhookTrigger (rsp_Triggers r)))])"

text \<open>The value a JSON object holds under a key (the first one, if the key repeats).\<close>

fun json_field :: "string \<Rightarrow> json \<Rightarrow> json option" where
  "json_field k (JObj kvs) = map_of kvs k"
| "json_field k _ = None"

section \<open>Package database (the SQLite message store)\<close>

text \<open>
  The tables of \<open>createTables\<close>. A table is the list of its rows in insertion order, so
  that a key held by two rows would show; the primary keys are what the statements below
  make of them. \<open>seq_configs\<close>, \<open>seq_triggers\<close> and \<open>seq_logs\<close> are the
  \<open>AUTOINCREMENT\<close> counters (SQLite's \<open>sqlite_sequence\<close>): the largest id the table has
  ever used.
\<close>

record chat_row =
  chat_jid :: string
  chat_name :: string
  last_message_time :: time

record message_row =
  msg_id :: string
  msg_chat_jid :: string
  msg_sender :: string
  msg_sender_name :: string
  msg_content :: string
  msg_timestamp :: time
  msg_is_from_me :: bool
  msg_media_type :: string
  msg_filename :: string
  msg_url :: string
  msg_media_key :: string
  msg_file_sha256 :: string
  msg_file_enc_sha256 :: string
  msg_file_length :: nat

record config_row =
  row_id :: int
  row_name :: string
  row_webhook_url :: string
  row_secret_token :: string
  row_enabled :: bool
  row_created_at :: time
  row_updated_at :: time

record MessageStore =
  chats :: "chat_row list"
  messages :: "message_row list"
  webhook_configs :: "config_row list"
  webhook_triggers :: "WebhookTrigger list"
  webhook_logs :: "WebhookLog list"
  seq_configs :: int
  seq_triggers :: int
  seq_logs :: int

text \<open>
  A statement sent to the database can fail (the disk, a lock, a constraint); the source
  checks the error of each one. Which statements fail is the environment's choice, given
  to a modelled operation as \<open>f :: faults\<close>: \<open>f k\<close> holds when the \<open>k\<close>-th database
  call of that operation returns an error. A failed statement changes nothing.
\<close>

type_synonym faults = "nat \<Rightarrow> bool"

definition no_faults :: faults where
  "no_faults = (\<lambda>k. False)"

definition fault_at :: "nat \<Rightarrow> faults" where
  "fault_at n = (\<lambda>k. k = n)"

subsection \<open>Chats and messages (part of package database)\<close>

text \<open>
  \<open>INSERT OR REPLACE\<close> deletes the rows that hold the new row's primary key and inserts
  the new row.
\<close>

definition StoreChat ::
  "faults \<Rightarrow> string \<Rightarrow> string \<Rightarrow> time \<Rightarrow> MessageStore \<Rightarrow> error option \<times> MessageStore" where
  "StoreChat f jid name lastMessageTime store =
     (if f 0 then (Some SqlError, store)
      else (None,
            store\<lparr>chats :=
              filter (\<lambda>r. chat_jid r \<noteq> jid) (chats store)
              @ [\<lparr>chat_jid = jid, chat_name = name, last_message_time = lastMessageTime\<rparr>]\<rparr>))"

text \<open>
  \<open>StoreMessage\<close> takes the fourteen column values as arguments; the model takes them as
  one \<^typ>\<open>message_row\<close>.
\<close>

definition same_key :: "string \<Rightarrow> string \<Rightarrow> message_row \<Rightarrow> bool" where
  "same_key id' chatJID r = (msg_id r = id' \<and> msg_chat_jid r = chatJID)"

definition StoreMessage ::
  "faults \<Rightarrow> message_row \<Rightarrow> MessageStore \<Rightarrow> error option \<times> MessageStore" where
  "StoreMessage f m store =
     (if msg_content m = [] \<and> msg_media_type m = [] then (None, store)
      else
        let senderName = (if msg_sender_name m = [] then msg_sender m else msg_sender_name m)
        in if f 0 then (Some SqlError, store)
           else (None,
                 store\<lparr>messages :=
                   filter (\<lambda>r. \<not> same_key (msg_id m) (msg_chat_jid m) r) (messages store)
                   @ [m\<lparr>msg_sender_name := senderName\<rparr>]\<rparr>))"

subsection \<open>Webhook configurations, triggers and logs\<close>

text \<open>
  \<open>StoreWebhookTrigger\<close>: one \<open>INSERT\<close> (database call \<open>k\<close>) and \<open>LastInsertId\<close> (call
  \<open>k + 1\<close>); the trigger comes back with its new id.
\<close>

definition StoreWebhookTrigger ::
  "faults \<Rightarrow> nat \<Rightarrow> WebhookTrigger \<Rightarrow> MessageStore \<Rightarrow> (error + WebhookTrigger) \<times> MessageStore" where
  "StoreWebhookTrigger f k trigger store =
     (if f k then (Inl SqlError, store)
      else
        let newid = seq_triggers store + 1;
            store' = store\<lparr>webhook_triggers := webhook_triggers store @ [trigger\<lparr>trg_ID := newid\<rparr>],
                           seq_triggers := newid\<rparr>
        in if f (k + 1) then (Inl SqlError, store')
           else (Inr (trigger\<lparr>trg_ID := newid\<rparr>), store'))"

text \<open>The loop \<open>for i := range config.Triggers\<close> of \<open>StoreWebhookConfig\<close>.\<close>

fun store_triggers ::
  "faults \<Rightarrow> nat \<Rightarrow> int \<Rightarrow> WebhookTrigger list \<Rightarrow> MessageStore
     \<Rightarrow> (error + WebhookTrigger list) \<times> MessageStore" where
  "store_triggers f k cid [] store = (Inr [], store)"
| "store_triggers f k cid (t # ts) store =
     (case StoreWebhookTrigger f k (t\<lparr>trg_WebhookConfigID := cid\<rparr>) store of
        (Inl e, store') \<Rightarrow> (Inl e, store')
      | (Inr t', store') \<Rightarrow>
          (case store_triggers f (k + 2) cid ts store' of
             (Inl e, store'') \<Rightarrow> (Inl e, store'')
           | (Inr ts', store'') \<Rightarrow> (Inr (t' # ts'), store'')))"

text \<open>
  \<open>StoreWebhookConfig\<close> (no transaction): insert the row (call 0), read its id (call
  1), then store each trigger under that id. \<open>now\<close> is \<open>CURRENT_TIMESTAMP\<close>. The struct
  comes back with the ids filled in, as the source fills them through the pointer.
\<close>

definition StoreWebhookConfig ::
  "faults \<Rightarrow> time \<Rightarrow> WebhookConfig \<Rightarrow> MessageStore \<Rightarrow> (error + WebhookConfig) \<times> MessageStore" where
  "StoreWebhookConfig f now config store =
     (if f 0 then (Inl SqlError, store)
      else
        let newid = seq_configs store + 1;
            store' = store\<lparr>webhook_configs := webhook_configs store @
                             [\<lparr>row_id = newid, row_name = cfg_Name config,
                               row_webhook_url = WebhookURL config,
                               row_secret_token = SecretToken config,
                               row_enabled = cfg_Enabled config,
                               row_created_at = now, row_updated_at = now\<rparr>],
                           seq_configs := newid\<rparr>
        in if f 1 then (Inl SqlError, store')
           else (case store_triggers f 2 newid (Triggers config) store' of
                   (Inl e, store'') \<Rightarrow> (Inl e, store'')
                 | (Inr ts', store'') \<Rightarrow>
                     (Inr (config\<lparr>cfg_ID := newid, Triggers := ts'\<rparr>), store'')))"

definition GetWebhookTriggers ::
  "faults \<Rightarrow> nat \<Rightarrow> int \<Rightarrow> MessageStore \<Rightarrow> error + WebhookTrigger list" where
  "GetWebhookTriggers f k webhookConfigID store =
     (if f k then Inl SqlError
      else Inr (filter (\<lambda>t. trg_WebhookConfigID t = webhookConfigID) (webhook_triggers store)))"

definition config_of_row :: "config_row \<Rightarrow> WebhookTrigger list \<Rightarrow> WebhookConfig" where
  "config_of_row r ts =
     \<lparr> cfg_ID = row_id r, cfg_Name = row_name r, WebhookURL = row_webhook_url r,
       SecretToken = row_secret_token r, cfg_Enabled = row_enabled r,
       cfg_CreatedAt = row_created_at r, cfg_UpdatedAt = row_updated_at r,
       Triggers = ts \<rparr>"

definition GetWebhookConfig :: "faults \<Rightarrow> int \<Rightarrow> MessageStore \<Rightarrow> error + WebhookConfig" where
  "GetWebhookConfig f id' store =
     (if f 0 then Inl SqlError
      else (case find (\<lambda>r. row_id r = id') (webhook_configs store) of
              None \<Rightarrow> Inl ErrNoRows
            | Some r \<Rightarrow>
                (case GetWebhookTriggers f 1 id' store of
                   Inl e \<Rightarrow> Inl e
                 | Inr ts \<Rightarrow> Inr (config_of_row r ts))))"

text \<open>
  \<open>GetAllWebhookConfigs\<close>: the rows \<open>ORDER BY created_at DESC\<close> (call 0), and for the
  \<open>i\<close>-th row its triggers (call \<open>i + 1\<close>). SQL leaves the order of rows with equal
  \<open>created_at\<close> open; the model keeps them in insertion order.
\<close>

fun load_rows :: "faults \<Rightarrow> nat \<Rightarrow> config_row list \<Rightarrow> MessageStore \<Rightarrow> error + WebhookConfig list" where
  "load_rows f k [] store = Inr []"
| "load_rows f k (r # rs) store =
     (case GetWebhookTriggers f k (row_id r) store of
        Inl e \<Rightarrow> Inl e
      | Inr ts \<Rightarrow>
          (case load_rows f (k + 1) rs store of
             Inl e \<Rightarrow> Inl e
           | Inr cs \<Rightarrow> Inr (config_of_row r ts # cs)))"

definition GetAllWebhookConfigs :: "faults \<Rightarrow> MessageStore \<Rightarrow> error + WebhookConfig list" where
  "GetAllWebhookConfigs f store =
     (if f 0 then Inl SqlError
      else load_rows f 1 (sort_key (\<lambda>r. - row_created_at r) (webhook_configs store)) store)"

text \<open>
  \<open>UpdateWebhookConfig\<close> runs in a transaction: \<open>tx.Exec\<close> works on the transaction's
  own view of the tables (\<open>tx\<close> below, started from the store), \<open>tx.Commit\<close> makes it
  the store, and the deferred \<open>tx.Rollback\<close> drops it on every return before the commit
  (after a commit it does nothing). The insert loop first.
\<close>

fun tx_insert_triggers ::
  "faults \<Rightarrow> nat \<Rightarrow> int \<Rightarrow> WebhookTrigger list \<Rightarrow> MessageStore
     \<Rightarrow> error + (WebhookTrigger list \<times> MessageStore)" where
  "tx_insert_triggers f i cid [] tx = Inr ([], tx)"
| "tx_insert_triggers f i cid (t # ts) tx =
     (if f (4 + 2 * i) then Inl (InsertTriggerFailed i)
      else
        let newid = seq_triggers tx + 1;
            t' = t\<lparr>trg_WebhookConfigID := cid, trg_ID := newid\<rparr>;
            tx' = tx\<lparr>webhook_triggers := webhook_triggers tx @ [t'], seq_triggers := newid\<rparr>
        in if f (5 + 2 * i) then Inl (LastInsertIdFailed i)
           else (case tx_insert_triggers f (i + 1) cid ts tx' of
                   Inl e \<Rightarrow> Inl e
                 | Inr (ts', tx'') \<Rightarrow> Inr (t' # ts', tx'')))"

text \<open>
  The database calls of \<open>UpdateWebhookConfig\<close>, in order: \<open>Begin\<close> (0), the \<open>UPDATE\<close>
  (1), \<open>RowsAffected\<close> (2), the \<open>DELETE\<close> of the triggers (3), for the \<open>i\<close>-th new
  trigger its \<open>INSERT\<close> (\<open>4 + 2i\<close>) and \<open>LastInsertId\<close> (\<open>5 + 2i\<close>), and \<open>Commit\<close>
  (\<open>4 + 2n\<close> for \<open>n\<close> triggers). On an error the callers drop the struct, so only the
  store is returned with it.
\<close>

definition update_row :: "time \<Rightarrow> WebhookConfig \<Rightarrow> config_row \<Rightarrow> config_row" where
  "update_row now config r =
     (if row_id r = cfg_ID config
      then r\<lparr>row_name := cfg_Name config, row_webhook_url := WebhookURL config,
             row_secret_token := SecretToken config, row_enabled := cfg_Enabled config,
             row_updated_at := now\<rparr>
      else r)"

definition UpdateWebhookConfig ::
  "faults \<Rightarrow> time \<Rightarrow> WebhookConfig \<Rightarrow> MessageStore \<Rightarrow> (error + WebhookConfig) \<times> MessageStore" where
  "UpdateWebhookConfig f now config store =
     (if f 0 then (Inl BeginFailed, store)
      else if f 1 then (Inl UpdateConfigFailed, store)
      else
        let tx1 = store\<lparr>webhook_configs := map (update_row now config) (webhook_configs store)\<rparr>;
            rowsAffected = length (filter (\<lambda>r. row_id r = cfg_ID config) (webhook_configs store))
        in if f 2 then (Inl RowsAffectedFailed, store)
           else if rowsAffected = 0 then (Inl (WebhookNotFound (cfg_ID config)), store)
           else if f 3 then (Inl DeleteTriggersFailed, store)
           else
             let tx2 = tx1\<lparr>webhook_triggers :=
                         filter (\<lambda>t. trg_WebhookConfigID t \<noteq> cfg_ID config) (webhook_triggers tx1)\<rparr>
             in (case tx_insert_triggers f 0 (cfg_ID config) (Triggers config) tx2 of
                   Inl e \<Rightarrow> (Inl e, store)
                 | Inr (ts', tx3) \<Rightarrow>
                     if f (4 + 2 * length (Triggers config)) then (Inl CommitFailed, store)
                     else (Inr (config\<lparr>Triggers := ts'\<rparr>), tx3)))"

text \<open>
  \<open>DeleteWebhookConfig\<close> sends four statements straight to the database, outside any
  transaction: the count (call 0), then the \<open>DELETE\<close> of the logs (1), of the triggers
  (2) and of the configuration (3). What an earlier statement deleted stays deleted when
  a later one fails.
\<close>

definition DeleteWebhookConfig :: "faults \<Rightarrow> int \<Rightarrow> MessageStore \<Rightarrow> error option \<times> MessageStore" where
  "DeleteWebhookConfig f id' store =
     (if f 0 then (Some SqlError, store)
      else if length (filter (\<lambda>r. row_id r = id') (webhook_configs store)) = 0
        then (Some (WebhookNotFound id'), store)
      else if f 1 then (Some SqlError, store)
      else
        let store1 = store\<lparr>webhook_logs :=
                       filter (\<lambda>l. log_WebhookConfigID l \<noteq> id') (webhook_logs store)\<rparr>
        in if f 2 then (Some SqlError, store1)
           else
             let store2 = store1\<lparr>webhook_triggers :=
                            filter (\<lambda>t. trg_WebhookConfigID t \<noteq> id') (webhook_triggers store1)\<rparr>
             in if f 3 then (Some SqlError, store2)
                else (None, store2\<lparr>webhook_configs :=
                              filter (\<lambda>r. row_id r \<noteq> id') (webhook_configs store2)\<rparr>))"

text \<open>
  \<open>StoreWebhookLog\<close>: one \<open>INSERT\<close> (database call \<open>k\<close>); the id and \<open>created_at\<close> are
  the table's defaults.
\<close>

definition StoreWebhookLog ::
  "faults \<Rightarrow> nat \<Rightarrow> time \<Rightarrow> WebhookLog \<Rightarrow> MessageStore \<Rightarrow> error option \<times> MessageStore" where
  "StoreWebhookLog f k now log store =
     (if f k then (Some SqlError, store)
      else
        let newid = seq_logs store + 1
        in (None, store\<lparr>webhook_logs := webhook_logs store @ [log\<lparr>log_ID := newid, log_CreatedAt := now\<rparr>],
                         seq_logs := newid\<rparr>))"

text \<open>
  \<open>GetWebhookLogs\<close>: the rows of one configuration (of all, for an id that is not
  positive), \<open>ORDER BY created_at DESC\<close>, at most \<open>limit\<close> of them for a positive limit.
\<close>

definition GetWebhookLogs :: "faults \<Rightarrow> int \<Rightarrow> int \<Rightarrow> MessageStore \<Rightarrow> error + WebhookLog list" where
  "GetWebhookLogs f webhookConfigID limit store =
     (if f 0 then Inl SqlError
      else
        let rows = (if webhookConfigID > 0
                    then filter (\<lambda>l. log_WebhookConfigID l = webhookConfigID) (webhook_logs store)
                    else webhook_logs store);
            sorted_rows = sort_key (\<lambda>l. - log_CreatedAt l) rows
        in Inr (if limit > 0 then take (nat limit) sorted_rows else sorted_rows))"

section \<open>Package webhook: validation (SSRF filter)\<close>

subsection \<open>The parts of package \<open>net\<close> that \<open>isPrivateIP\<close> calls\<close>

text \<open>
  A \<open>net.IP\<close> is a byte slice, of length 4 (IPv4) or 16 (IPv6, or IPv4 mapped into
  IPv6 as \<open>::ffff:a.b.c.d\<close>). \<open>To4\<close> gives the 4-byte form of an IPv4 address and
  \<open>nil\<close> (\<open>None\<close>) for anything else.
\<close>

type_synonym byte = "8 word"
type_synonym IP = "byte list"

definition To4 :: "IP \<Rightarrow> IP option" where
  "To4 ip =
     (if length ip = 4 then Some ip
      else if length ip = 16 \<and> list_all (\<lambda>b. b = 0) (take 10 ip)
              \<and> ip ! 10 = 0xff \<and> ip ! 11 = 0xff
        then Some (drop 12 ip)
      else None)"

definition IPv6loopback :: IP where
  "IPv6loopback = [0, 0, 0, 0, 0, 0, 0, 0, 0, 0, 0, 0, 0, 0, 0, 1]"

text \<open>
  \<open>IsLoopback\<close> ends in \<open>ip.Equal(IPv6loopback)\<close>, reached only when \<open>ip\<close> has no
  4-byte form; \<open>Equal\<close> is then equality of the bytes.
\<close>

definition IsLoopback :: "IP \<Rightarrow> bool" where
  "IsLoopback ip =
     (case To4 ip of
        Some ip4 \<Rightarrow> ip4 ! 0 = 127
      | None \<Rightarrow> ip = IPv6loopback)"

definition IsLinkLocalMulticast :: "IP \<Rightarrow> bool" where
  "IsLinkLocalMulticast ip =
     (case To4 ip of
        Some ip4 \<Rightarrow> ip4 ! 0 = 224 \<and> ip4 ! 1 = 0 \<and> ip4 ! 2 = 0
      | None \<Rightarrow> length ip = 16 \<and> ip ! 0 = 0xff \<and> (ip ! 1) AND 0x0f = 0x02)"

definition IsLinkLocalUnicast :: "IP \<Rightarrow> bool" where
  "IsLinkLocalUnicast ip =
     (case To4 ip of
        Some ip4 \<Rightarrow> ip4 ! 0 = 169 \<and> ip4 ! 1 = 254
      | None \<Rightarrow> length ip = 16 \<and> ip ! 0 = 0xfe \<and> (ip ! 1) AND 0xc0 = 0x80)"

record IPNet =
  net_IP :: IP
  net_Mask :: IP

text \<open>
  \<open>CIDRMask(ones, bits)\<close>: \<open>bits / 8\<close> bytes whose first \<open>ones\<close> bits are set
  (\<open>mask_bytes\<close> is its loop), and \<open>nil\<close> for a size that is not 32 or 128 or a
  prefix longer than it.
\<close>

fun mask_bytes :: "nat \<Rightarrow> nat \<Rightarrow> byte list" where
  "mask_bytes 0 n = []"
| "mask_bytes (Suc l) n =
     (if 8 \<le> n then 0xff # mask_bytes l (n - 8)
      else NOT (drop_bit n 0xff) # mask_bytes l 0)"

definition CIDRMask :: "nat \<Rightarrow> nat \<Rightarrow> IP" where
  "CIDRMask ones bits =
     (if (bits = 32 \<or> bits = 128) \<and> ones \<le> bits then mask_bytes (bits div 8) ones else [])"

text \<open>
  \<open>ParseCIDR\<close> applied to a literal \<open>a.b.c.d/n\<close> or to an IPv6 literal with its prefix
  length, the literal given as its address bytes: the network is the address under the
  mask, 4 bytes long for an IPv4 literal.
\<close>

definition ParseCIDR :: "IP \<Rightarrow> nat \<Rightarrow> IPNet" where
  "ParseCIDR addr ones =
     (let m = CIDRMask ones (8 * length addr)
      in \<lparr> net_IP = map2 (AND) addr m, net_Mask = m \<rparr>)"

definition networkNumberAndMask :: "IPNet \<Rightarrow> IP \<times> IP" where
  "networkNumberAndMask n =
     (let ip = (case To4 (net_IP n) of Some ip4 \<Rightarrow> ip4 | None \<Rightarrow> net_IP n);
          m = net_Mask n
      in if length ip \<noteq> 4 \<and> length ip \<noteq> 16 then ([], [])
         else if length m = 4 then (if length ip \<noteq> 4 then ([], []) else (ip, m))
         else if length m = 16 then (if length ip = 4 then (ip, drop 12 m) else (ip, m))
         else ([], []))"

definition net_Contains :: "IPNet \<Rightarrow> IP \<Rightarrow> bool" where
  "net_Contains n ip =
     (let (nn, m) = networkNumberAndMask n;
          ip' = (case To4 ip of Some x \<Rightarrow> x | None \<Rightarrow> ip)
      in if length ip' \<noteq> length nn then False
         else list_all (\<lambda>i. (nn ! i) AND (m ! i) = (ip' ! i) AND (m ! i)) [0..<length ip'])"

subsection \<open>\<open>privateIPBlocks\<close>, \<open>isPrivateIP\<close> and \<open>ValidateWebhookURL\<close>\<close>

text \<open>The list \<open>init\<close> builds: the eleven CIDR literals, each parsed without error.\<close>

definition privateIPBlocks :: "IPNet list" where
  "privateIPBlocks =
     [ParseCIDR [10, 0, 0, 0] 8,
      ParseCIDR [172, 16, 0, 0] 12,
      ParseCIDR [192, 168, 0, 0] 16,
      ParseCIDR [127, 0, 0, 0] 8,
      ParseCIDR [169, 254, 0, 0] 16,
      ParseCIDR [0, 0, 0, 0] 8,
      ParseCIDR [224, 0, 0, 0] 4,
      ParseCIDR [240, 0, 0, 0] 4,
      ParseCIDR [0, 0, 0, 0, 0, 0, 0, 0, 0, 0, 0, 0, 0, 0, 0, 1] 128,
      ParseCIDR [0xfc, 0, 0, 0, 0, 0, 0, 0, 0, 0, 0, 0, 0, 0, 0, 0] 7,
      ParseCIDR [0xfe, 0x80, 0, 0, 0, 0, 0, 0, 0, 0, 0, 0, 0, 0, 0, 0] 10]"

definition isPrivateIP :: "IP \<Rightarrow> bool" where
  "isPrivateIP ip =
     (if IsLoopback ip \<or> IsLinkLocalMulticast ip \<or> IsLinkLocalUnicast ip then True
      else list_ex (\<lambda>block. net_Contains block ip) privateIPBlocks)"

text \<open>
  What \<open>ValidateWebhookURL\<close> and the matcher take from outside the program:
  \<^item> \<open>disable_ssrf_check\<close>: \<open>os.Getenv("DISABLE_SSRF_CHECK") == "true"\<close>;
  \<^item> \<open>url_Hostname\<close>: \<open>url.Parse\<close> followed by \<open>Hostname()\<close>, \<open>None\<close> when the URL does
    not parse;
  \<^item> \<open>LookupIP\<close>: \<open>net.LookupIP\<close>, \<open>None\<close> when the resolution fails;
  \<^item> \<open>regexp_MatchString\<close>: \<open>regexp.MatchString(pattern, text)\<close>, \<open>None\<close> when the
    pattern does not compile.
\<close>

record env =
  disable_ssrf_check :: bool
  url_Hostname :: "string \<Rightarrow> string option"
  LookupIP :: "string \<Rightarrow> IP list option"
  regexp_MatchString :: "string \<Rightarrow> string \<Rightarrow> bool option"

definition blockedHosts :: "string list" where
  "blockedHosts = [''metadata.google.internal'', ''169.254.169.254'', ''metadata.azure.com'']"

definition ValidateWebhookURL :: "env \<Rightarrow> string \<Rightarrow> error option" where
  "ValidateWebhookURL e webhookURL =
     (if disable_ssrf_check e then None
      else (case url_Hostname e webhookURL of
              None \<Rightarrow> Some InvalidURL
            | Some hostname \<Rightarrow>
                if list_ex (\<lambda>blocked. EqualFold hostname blocked) blockedHosts
                then Some (HostBlocked hostname)
                else (case LookupIP e hostname of
                        None \<Rightarrow> Some ResolveFailed
                      | Some ips \<Rightarrow>
                          (case find isPrivateIP ips of
                             Some ip \<Rightarrow> Some (ResolvesToPrivate hostname ip)
                           | None \<Rightarrow> None))))"

text \<open>
  The loop over the triggers of \<open>ValidateWebhookConfig\<close>. \<open>regexp.Compile\<close> fails on
  the patterns on which \<open>regexp.MatchString\<close> reports an error.
\<close>

fun validate_triggers :: "env \<Rightarrow> WebhookTrigger list \<Rightarrow> error option" where
  "validate_triggers e [] = None"
| "validate_triggers e (trigger # ts) =
     (if TriggerType trigger = [] then Some TriggerTypeRequired
      else if TriggerType trigger \<notin> set [''all'', ''chat_jid'', ''sender'', ''keyword'', ''media_type'']
        then Some (InvalidTriggerType (TriggerType trigger))
      else if MatchType trigger \<notin> set [''exact'', ''contains'', ''regex'']
        then Some (InvalidMatchType (MatchType trigger))
      else if MatchType trigger = ''regex'' \<and> TriggerValue trigger \<noteq> []
              \<and> regexp_MatchString e (TriggerValue trigger) [] = None
        then Some (InvalidRegex (TriggerValue trigger))
      else validate_triggers e ts)"

definition ValidateWebhookConfig :: "env \<Rightarrow> WebhookConfig \<Rightarrow> error option" where
  "ValidateWebhookConfig e config =
     (if cfg_Name config = [] then Some NameRequired
      else if length (cfg_Name config) > 255 then Some NameTooLong
      else if WebhookURL config = [] then Some URLRequired
      else if length (WebhookURL config) > 2048 then Some URLTooLong
      else if \<not> HasPrefix (WebhookURL config) ''http://''
              \<and> \<not> HasPrefix (WebhookURL config) ''https://'' then Some URLScheme
      else (case ValidateWebhookURL e (WebhookURL config) of
              Some err \<Rightarrow> Some err
            | None \<Rightarrow> validate_triggers e (Triggers config)))"

section \<open>Package webhook: trigger matching (manager.go)\<close>

text \<open>
  What the matcher reads of an \<open>events.Message\<close>: the renderings \<open>Info.Chat.String()\<close>
  and \<open>Info.Sender.String()\<close>, \<open>Info.Sender.User\<close>, and the other fields of \<open>Info\<close>
  that ingestion stores.
\<close>

record MessageInfo =
  Chat :: string
  Sender :: string
  SenderUser :: string
  info_ID :: string
  Timestamp :: time
  PushName :: string
  IsFromMe :: bool

definition matchesString :: "env \<Rightarrow> string \<Rightarrow> string \<Rightarrow> string \<Rightarrow> bool" where
  "matchesString e text' pattern matchType =
     (if matchType = ''exact'' then text' = pattern
      else if matchType = ''contains'' then Contains (ToLower text') (ToLower pattern)
      else if matchType = ''regex'' then
        (case regexp_MatchString e pattern text' of
           None \<Rightarrow> False
         | Some matched \<Rightarrow> matched)
      else False)"

definition matchesTrigger ::
  "env \<Rightarrow> WebhookTrigger \<Rightarrow> MessageInfo \<Rightarrow> string \<Rightarrow> string \<Rightarrow> string \<Rightarrow> bool" where
  "matchesTrigger e trigger msg content mediaType chatName =
     (if TriggerType trigger = ''all'' then True
      else if TriggerType trigger = ''chat_jid''
        then matchesString e (Chat msg) (TriggerValue trigger) (MatchType trigger)
      else if TriggerType trigger = ''sender''
        then matchesString e (Sender msg) (TriggerValue trigger) (MatchType trigger)
             \<or> matchesString e (SenderUser msg) (TriggerValue trigger) (MatchType trigger)
      else if TriggerType trigger = ''keyword''
        then matchesString e content (TriggerValue trigger) (MatchType trigger)
      else if TriggerType trigger = ''media_type''
        then matchesString e mediaType (TriggerValue trigger) (MatchType trigger)
      else False)"

subsection \<open>A fragment of Go's regular expressions, to run the matcher\<close>

text \<open>
  \<open>regexp.MatchString\<close> is a parameter of the model. To evaluate the matcher on concrete
  patterns, \<open>re_fragment\<close> implements it for the patterns built from literal characters,
  \<open>.\<close> (any character but a newline) and a postfix \<open>*\<close>: the text matches when some
  part of it does, as \<open>MatchString\<close> searches. On every other pattern \<open>re_fragment\<close>
  gives \<open>None\<close>; nothing is evaluated there.
\<close>

datatype re_atom = AnyChar | Lit char

definition re_meta :: "char \<Rightarrow> bool" where
  "re_meta c = (c \<in> set (CHR 0x5C # ''.+*?()|[]{}^$''))"

fun re_parse :: "string \<Rightarrow> (re_atom \<times> bool) list option" where
  "re_parse [] = Some []"
| "re_parse (c # cs) =
     (if c \<noteq> CHR ''.'' \<and> re_meta c then None
      else
        let a = (if c = CHR ''.'' then AnyChar else Lit c)
        in (case cs of
              d # ds \<Rightarrow>
                if d = CHR ''*'' then map_option (Cons (a, True)) (re_parse ds)
                else map_option (Cons (a, False)) (re_parse cs)
            | [] \<Rightarrow> Some [(a, False)]))"

fun re_atom_ok :: "re_atom \<Rightarrow> char \<Rightarrow> bool" where
  "re_atom_ok AnyChar c = (c \<noteq> CHR 0x0A)"
| "re_atom_ok (Lit l) c = (c = l)"

fun re_prefix :: "(re_atom \<times> bool) list \<Rightarrow> string \<Rightarrow> bool" where
  "re_prefix [] s = True"
| "re_prefix ((a, False) # r) [] = False"
| "re_prefix ((a, False) # r) (c # cs) = (re_atom_ok a c \<and> re_prefix r cs)"
| "re_prefix ((a, True) # r) [] = re_prefix r []"
| "re_prefix ((a, True) # r) (c # cs) =
     (re_prefix r (c # cs) \<or> (re_atom_ok a c \<and> re_prefix ((a, True) # r) cs))"

fun re_search :: "(re_atom \<times> bool) list \<Rightarrow> string \<Rightarrow> bool" where
  "re_search r [] = re_prefix r []"
| "re_search r (c # cs) = (re_prefix r (c # cs) \<or> re_search r cs)"

definition re_fragment :: "string \<Rightarrow> string \<Rightarrow> bool option" where
  "re_fragment pattern text' = map_option (\<lambda>r. re_search r text') (re_parse pattern)"

section \<open>Package webhook: delivery (delivery.go)\<close>

text \<open>
  The payload: \<open>DeliverWebhook\<close> only stamps \<open>Metadata.DeliveryAttempt\<close> and
  serialises; the other parts are carried as they are.
\<close>

record WebhookMessageInfo =
  wm_ID :: string
  wm_ChatJID :: string
  wm_ChatName :: string
  wm_Sender :: string
  wm_SenderName :: string
  wm_Content :: string
  wm_Timestamp :: string
  wm_PushName :: string
  wm_IsFromMe :: bool
  wm_MediaType :: string
  wm_Filename :: string
  wm_MediaDownloadURL :: string

record WebhookMetadata =
  GroupInfo :: "(bool \<times> string \<times> int) option"
  DeliveryAttempt :: int
  ProcessingTimeMs :: int

record WebhookPayload =
  EventType :: string
  pl_Timestamp :: string
  pl_WebhookConfig :: "int \<times> string"
  pl_Trigger :: "string \<times> string \<times> string"
  pl_Message :: WebhookMessageInfo
  Metadata :: WebhookMetadata

record http_request =
  req_URL :: string
  req_Header :: "(string \<times> string) list"
  req_Body :: string

text \<open>
  The answer to an HTTP request: an error of \<open>httpClient.Do\<close>, or a response with its
  status code and its body. The body is an \<open>io.Reader\<close>: one \<open>Read(p)\<close> returns what
  is at hand, at most \<open>len(p)\<close> bytes, and not the whole body when it arrives in parts
  (a chunked response, a body spread over several packets). The body is given as the
  list of the parts in which it arrives.
\<close>

datatype http_result = DoError string | Response int "string list"

text \<open>
  What delivery takes from outside the program:
  \<^item> \<open>json_Marshal\<close>: \<open>json.Marshal\<close> of the payload, \<open>None\<close> for its error;
  \<^item> \<open>NewRequest_error\<close>: the error text of \<open>http.NewRequest\<close> for a URL, if any;
  \<^item> \<open>http_Do\<close>: what \<open>httpClient.Do\<close> returns for the \<open>k\<close>-th request of a delivery;
  \<^item> \<open>hmac_sha256_hex\<close>: the hex text of HMAC-SHA256 of a body under a key;
  \<^item> \<open>clock\<close>: the time (\<open>time.Now\<close>, \<open>CURRENT_TIMESTAMP\<close>) at the \<open>k\<close>-th attempt;
  \<^item> \<open>rfc3339\<close>: \<open>Format(time.RFC3339)\<close>.
\<close>

record http_env =
  json_Marshal :: "WebhookPayload \<Rightarrow> string option"
  NewRequest_error :: "string \<Rightarrow> string option"
  http_Do :: "nat \<Rightarrow> http_request \<Rightarrow> http_result"
  hmac_sha256_hex :: "string \<Rightarrow> string \<Rightarrow> string"
  clock :: "nat \<Rightarrow> time"
  rfc3339 :: "time \<Rightarrow> string"

definition generateHMACSignature :: "http_env \<Rightarrow> string \<Rightarrow> string \<Rightarrow> string" where
  "generateHMACSignature he payload secret = ''sha256='' @ hmac_sha256_hex he secret payload"

text \<open>
  One \<open>resp.Body.Read(responseBytes)\<close> into a buffer of \<open>n\<close> bytes, the error dropped:
  the first part of the body, cut to the buffer.
\<close>

fun body_Read :: "nat \<Rightarrow> string list \<Rightarrow> string" where
  "body_Read n [] = []"
| "body_Read n (part # parts) = take n part"

definition sendHTTPRequest ::
  "http_env \<Rightarrow> nat \<Rightarrow> WebhookConfig \<Rightarrow> string \<Rightarrow> bool \<times> int \<times> string" where
  "sendHTTPRequest he k config payload =
     (case NewRequest_error he (WebhookURL config) of
        Some msg \<Rightarrow> (False, 0, msg)
      | None \<Rightarrow>
          let header =
                [(''Content-Type'', ''application/json''),
                 (''User-Agent'', ''WhatsApp-Bridge-Webhook/1.0'')]
                @ (if SecretToken config \<noteq> []
                   then [(''X-Webhook-Signature'',
                          generateHMACSignature he payload (SecretToken config))]
                   else []);
              req = \<lparr> req_URL = WebhookURL config, req_Header = header, req_Body = payload \<rparr>
          in (case http_Do he k req of
                DoError msg \<Rightarrow> (False, 0, msg)
              | Response code body \<Rightarrow>
                  let responseBody = body_Read 1024 body
                  in (200 \<le> code \<and> code < 300, code, responseBody)))"

definition maxRetries :: nat where
  "maxRetries = 5"

definition backoffIntervals :: "nat list" where
  "backoffIntervals = [1, 2, 4, 8, 16]"

text \<open>
  What a delivery has done: the HTTP attempts made, the seconds slept (one entry per
  \<open>time.Sleep\<close>, in order) and the store.
\<close>

record delivery =
  d_attempts :: nat
  d_sleeps :: "nat list"
  d_store :: MessageStore

text \<open>
  The log row composed at attempt \<open>attempt\<close> and whether the attempt succeeded. On a
  failing \<open>json.Marshal\<close> inside the loop the source drops the error and goes on with
  no bytes.
\<close>

definition attempt_log ::
  "http_env \<Rightarrow> WebhookConfig \<Rightarrow> WebhookPayload \<Rightarrow> string \<Rightarrow> string \<Rightarrow> WebhookTrigger
     \<Rightarrow> nat \<Rightarrow> bool \<times> WebhookLog" where
  "attempt_log he config payload messageID chatJID trigger attempt =
     (let payload' = payload\<lparr>Metadata := (Metadata payload)\<lparr>DeliveryAttempt := int attempt\<rparr>\<rparr>;
          payloadBytes = (case json_Marshal he payload' of Some b \<Rightarrow> b | None \<Rightarrow> []);
          (success, statusCode, responseBody) = sendHTTPRequest he attempt config payloadBytes
      in (success,
          \<lparr> log_ID = 0,
            log_WebhookConfigID = cfg_ID config,
            log_MessageID = messageID,
            log_ChatJID = chatJID,
            log_TriggerType = TriggerType trigger,
            log_TriggerValue = TriggerValue trigger,
            log_Payload = payloadBytes,
            ResponseStatus = statusCode,
            ResponseBody = responseBody,
            AttemptCount = int attempt,
            DeliveredAt = (if success then Some (clock he attempt) else None),
            log_CreatedAt = 0 \<rparr>))"

text \<open>
  The loop \<open>for attempt := 1; attempt <= maxRetries; attempt++\<close>. The insert of the log
  row is database call \<open>attempt\<close>; its error is only logged. \<open>backoffIntervals\<close> is read
  at \<open>attempt - 1\<close> under \<open>attempt < maxRetries\<close>, inside the list.
\<close>

function deliver_loop ::
  "http_env \<Rightarrow> faults \<Rightarrow> WebhookConfig \<Rightarrow> WebhookPayload \<Rightarrow> string \<Rightarrow> string \<Rightarrow> WebhookTrigger
     \<Rightarrow> nat \<Rightarrow> delivery \<Rightarrow> delivery" where
  "deliver_loop he f config payload messageID chatJID trigger attempt d =
     (if attempt \<le> maxRetries then
        (case attempt_log he config payload messageID chatJID trigger attempt of
           (success, log) \<Rightarrow>
             let d' = d\<lparr>d_attempts := d_attempts d + 1,
                        d_store := snd (StoreWebhookLog f attempt (clock he attempt) log (d_store d))\<rparr>
             in if success then d'
                else if attempt < maxRetries
                  then deliver_loop he f config payload messageID chatJID trigger (attempt + 1)
                         (d'\<lparr>d_sleeps := d_sleeps d' @ [backoffIntervals ! (attempt - 1)]\<rparr>)
                  else deliver_loop he f config payload messageID chatJID trigger (attempt + 1) d')
      else d)"
  by pat_completeness auto
termination
  by (relation "measure (\<lambda>(he, f, config, payload, messageID, chatJID, trigger, attempt, d).
                           maxRetries + 1 - attempt)") auto

declare deliver_loop.simps [simp del]

definition DeliverWebhook ::
  "http_env \<Rightarrow> faults \<Rightarrow> WebhookConfig \<Rightarrow> WebhookPayload \<Rightarrow> string \<Rightarrow> string \<Rightarrow> WebhookTrigger
     \<Rightarrow> MessageStore \<Rightarrow> delivery" where
  "DeliverWebhook he f config payload messageID chatJID trigger store =
     (case json_Marshal he payload of
        None \<Rightarrow> \<lparr> d_attempts = 0, d_sleeps = [], d_store = store \<rparr>
      | Some b \<Rightarrow>
          deliver_loop he f config payload messageID chatJID trigger 1
            \<lparr> d_attempts = 0, d_sleeps = [], d_store = store \<rparr>)"

text \<open>\<open>TestWebhook\<close>: one request with a fixed payload, no retry and no log row.\<close>

definition TestWebhook :: "http_env \<Rightarrow> WebhookConfig \<Rightarrow> error option" where
  "TestWebhook he config =
     (let testPayload =
            \<lparr> EventType = ''test'',
              pl_Timestamp = rfc3339 he (clock he 1),
              pl_WebhookConfig = (cfg_ID config, cfg_Name config),
              pl_Trigger = ([], [], []),
              pl_Message =
                \<lparr> wm_ID = ''test-message-id'', wm_ChatJID = ''test@s.whatsapp.net'',
                  wm_ChatName = ''Test Chat'', wm_Sender = ''test'',
                  wm_SenderName = ''Test User'', wm_Content = ''This is a test message'',
                  wm_Timestamp = rfc3339 he (clock he 1), wm_PushName = [],
                  wm_IsFromMe = False, wm_MediaType = [], wm_Filename = [],
                  wm_MediaDownloadURL = [] \<rparr>,
              Metadata = \<lparr> GroupInfo = None, DeliveryAttempt = 1, ProcessingTimeMs = 0 \<rparr> \<rparr>
      in (case json_Marshal he testPayload of
            None \<Rightarrow> Some MarshalFailed
          | Some payloadBytes \<Rightarrow>
              (case sendHTTPRequest he 1 config payloadBytes of
                 (success, statusCode, responseBody) \<Rightarrow>
                   if \<not> success then Some (TestFailed statusCode responseBody) else None)))"

section \<open>Package whatsapp: ingestion of a live message (\<open>HandleMessage\<close>)\<close>

text \<open>
  An \<open>events.Message\<close> with what \<open>ExtractTextContent\<close> and \<open>ExtractMediaInfo\<close> read
  from it.
\<close>

record events_Message =
  Info :: MessageInfo
  ev_content :: string
  ev_mediaType :: string
  ev_filename :: string
  ev_url :: string
  ev_mediaKey :: string
  ev_fileSHA256 :: string
  ev_fileEncSHA256 :: string
  ev_fileLength :: nat

definition shift :: "nat \<Rightarrow> faults \<Rightarrow> faults" where
  "shift n f = (\<lambda>k. f (k + n))"

text \<open>
  \<open>GetChatName\<close>: the name the store holds for the chat, when the query (database call
  0) finds a non-empty one; otherwise the name resolved from the platform (group info,
  contact, sender), given as \<open>resolved\<close>.
\<close>

definition GetChatName :: "faults \<Rightarrow> string \<Rightarrow> string \<Rightarrow> MessageStore \<Rightarrow> string" where
  "GetChatName f resolved chatJID store =
     (case (if f 0 then None else find (\<lambda>r. chat_jid r = chatJID) (chats store)) of
        Some r \<Rightarrow> if chat_name r \<noteq> [] then chat_name r else resolved
      | None \<Rightarrow> resolved)"

text \<open>
  \<open>HandleMessage\<close>, up to the hand-over to the webhook manager (which starts the
  deliveries as tasks of their own): the name query is database call 0, \<open>StoreChat\<close>
  call 1, \<open>StoreMessage\<close> call 2. The errors of both stores are logged and dropped.
\<close>

definition HandleMessage :: "faults \<Rightarrow> string \<Rightarrow> events_Message \<Rightarrow> MessageStore \<Rightarrow> MessageStore" where
  "HandleMessage f resolved msg store =
     (let chatJID = Chat (Info msg);
          sender = SenderUser (Info msg);
          name = GetChatName f resolved chatJID store;
          store1 = snd (StoreChat (shift 1 f) chatJID name (Timestamp (Info msg)) store)
      in if ev_content msg = [] \<and> ev_mediaType msg = [] then store1
         else
           let senderName = (if PushName (Info msg) = [] then sender else PushName (Info msg))
           in snd (StoreMessage (shift 2 f)
                     \<lparr> msg_id = info_ID (Info msg), msg_chat_jid = chatJID, msg_sender = sender,
                       msg_sender_name = senderName, msg_content = ev_content msg,
                       msg_timestamp = Timestamp (Info msg), msg_is_from_me = IsFromMe (Info msg),
                       msg_media_type = ev_mediaType msg, msg_filename = ev_filename msg,
                       msg_url = ev_url msg, msg_media_key = ev_mediaKey msg,
                       msg_file_sha256 = ev_fileSHA256 msg,
                       msg_file_enc_sha256 = ev_fileEncSHA256 msg,
                       msg_file_length = ev_fileLength msg \<rparr>
                     store1))"

section \<open>Package api: the webhook handlers (handlers.go)\<close>

text \<open>
  The server holds the store and the webhook manager, whose \<open>configs\<close> is the snapshot
  \<open>LoadWebhookConfigs\<close> last read from the store.
\<close>

record Server =
  messageStore :: MessageStore
  configs :: "WebhookConfig list"

definition LoadWebhookConfigs :: "faults \<Rightarrow> Server \<Rightarrow> error option \<times> Server" where
  "LoadWebhookConfigs f s =
     (case GetAllWebhookConfigs f (messageStore s) of
        Inl e \<Rightarrow> (Some e, s)
      | Inr cs \<Rightarrow> (None, s\<lparr>configs := cs\<rparr>))"

text \<open>
  A request as the handlers read it: the method, the first part of the path after
  \<open>/api/webhooks/\<close> with what \<open>fmt.Sscanf(..., "%d", ...)\<close> reads from it (\<open>None\<close> for its
  error), the parts after it, and the body as \<open>json.Decode\<close> reads it into a
  \<open>types.WebhookConfig\<close> and into \<open>struct { Enabled bool }\<close> (\<open>None\<close> for a decoding
  error).
\<close>

record api_request =
  Method :: string
  path_id :: string
  scanned_id :: "int option"
  subpath :: "string list"
  body_config :: "WebhookConfig option"
  body_enabled :: "bool option"

text \<open>
  A response: the status code and the JSON object written. \<open>ErrorBody msg err\<close> is what
  \<open>SendJSONError\<close> writes, \<open>success: false\<close> and the error text \<open>msg\<close> followed by the
  text of \<open>err\<close> (if any); \<open>SuccessBody\<close> holds the fields of the map the handler
  encodes.
\<close>

datatype body = ErrorBody string "error option" | SuccessBody "(string \<times> json) list"

record http_response =
  resp_code :: nat
  resp_body :: body

definition SendJSONError :: "string \<Rightarrow> error option \<Rightarrow> nat \<Rightarrow> http_response" where
  "SendJSONError msg err statusCode = \<lparr> resp_code = statusCode, resp_body = ErrorBody msg err \<rparr>"

definition ok_response :: "(string \<times> json) list \<Rightarrow> http_response" where
  "ok_response kvs = \<lparr> resp_code = 200, resp_body = SuccessBody kvs \<rparr>"

definition json_WebhookLog :: "WebhookLog \<Rightarrow> json" where
  "json_WebhookLog l =
     JObj [(''id'', JInt (log_ID l)),
           (''webhook_config_id'', JInt (log_WebhookConfigID l)),
           (''message_id'', JStr (log_MessageID l)),
           (''chat_jid'', JStr (log_ChatJID l)),
           (''trigger_type'', JStr (log_TriggerType l)),
           (''trigger_value'', JStr (log_TriggerValue l)),
           (''payload'', JStr (log_Payload l)),
           (''response_status'', JInt (ResponseStatus l)),
           (''response_body'', JStr (ResponseBody l)),
           (''attempt_count'', JInt (AttemptCount l)),
           (''delivered_at'', (case DeliveredAt l of None \<Rightarrow> JNull | Some t \<Rightarrow> JTime t)),
           (''created_at'', JTime (log_CreatedAt l))]"

text \<open>
  The handlers take the validation environment \<open>e\<close>, the delivery environment \<open>he\<close>
  (for the test request), the time \<open>now\<close> and \<open>fs\<close>: \<open>fs j\<close> tells which database calls
  fail in the \<open>j\<close>-th store operation the handler runs.
\<close>

definition handleWebhooks ::
  "env \<Rightarrow> (nat \<Rightarrow> faults) \<Rightarrow> time \<Rightarrow> api_request \<Rightarrow> Server \<Rightarrow> http_response \<times> Server" where
  "handleWebhooks e fs now r s =
     (if Method r = ''GET'' then
        (ok_response [(''success'', JBool True),
                      (''data'', JArr (map (\<lambda>c. json_WebhookConfigResponse (ToResponse c)) (configs s)))],
         s)
      else if Method r = ''POST'' then
        (case body_config r of
           None \<Rightarrow> (SendJSONError ''Invalid request format'' None 400, s)
         | Some config \<Rightarrow>
             (case ValidateWebhookConfig e config of
                Some err \<Rightarrow> (SendJSONError [] (Some err) 400, s)
              | None \<Rightarrow>
                  (case StoreWebhookConfig (fs 0) now config (messageStore s) of
                     (Inl err, store') \<Rightarrow>
                       (SendJSONError ''Failed to store webhook config: '' (Some err) 500,
                        s\<lparr>messageStore := store'\<rparr>)
                   | (Inr config', store') \<Rightarrow>
                       (ok_response [(''success'', JBool True),
                                     (''data'', json_WebhookConfig config')],
                        snd (LoadWebhookConfigs (fs 1) (s\<lparr>messageStore := store'\<rparr>))))))
      else (SendJSONError ''Method not allowed'' None 405, s))"

definition handleWebhookByID ::
  "env \<Rightarrow> http_env \<Rightarrow> (nat \<Rightarrow> faults) \<Rightarrow> time \<Rightarrow> api_request \<Rightarrow> Server
     \<Rightarrow> http_response \<times> Server" where
  "handleWebhookByID e he fs now r s =
     (if path_id r = [] then (SendJSONError ''Webhook ID is required'' None 400, s)
      else (case scanned_id r of
        None \<Rightarrow> (SendJSONError ''Invalid webhook ID'' None 400, s)
      | Some webhookID \<Rightarrow>
        if subpath r = [] then
          (if Method r = ''GET'' then
             (case GetWebhookConfig (fs 0) webhookID (messageStore s) of
                Inl err \<Rightarrow> (SendJSONError ''Webhook not found: '' (Some err) 404, s)
              | Inr config \<Rightarrow>
                  (ok_response [(''success'', JBool True),
                                (''data'', json_WebhookConfigResponse (ToResponse config))], s))
           else if Method r = ''PUT'' then
             (case body_config r of
                None \<Rightarrow> (SendJSONError ''Invalid request format'' None 400, s)
              | Some config0 \<Rightarrow>
                  let config = config0\<lparr>cfg_ID := webhookID\<rparr>
                  in (case ValidateWebhookConfig e config of
                        Some err \<Rightarrow> (SendJSONError [] (Some err) 400, s)
                      | None \<Rightarrow>
                          (case UpdateWebhookConfig (fs 0) now config (messageStore s) of
                             (Inl err, store') \<Rightarrow>
                               (SendJSONError ''Failed to update webhook config: '' (Some err) 500,
                                s\<lparr>messageStore := store'\<rparr>)
                           | (Inr config', store') \<Rightarrow>
                               (ok_response [(''success'', JBool True),
                                             (''data'', json_WebhookConfigResponse (ToResponse config'))],
                                snd (LoadWebhookConfigs (fs 1) (s\<lparr>messageStore := store'\<rparr>))))))
           else if Method r = ''DELETE'' then
             (case DeleteWebhookConfig (fs 0) webhookID (messageStore s) of
                (Some err, store') \<Rightarrow>
                  (SendJSONError ''Failed to delete webhook config: '' (Some err) 500,
                   s\<lparr>messageStore := store'\<rparr>)
              | (None, store') \<Rightarrow>
                  (ok_response [(''success'', JBool True),
                                (''message'', JStr ''Webhook deleted successfully'')],
                   snd (LoadWebhookConfigs (fs 1) (s\<lparr>messageStore := store'\<rparr>))))
           else (SendJSONError ''Method not allowed'' None 405, s))
        else if subpath r = [''test''] then
          (if Method r \<noteq> ''POST'' then (SendJSONError ''Method not allowed'' None 405, s)
           else (case GetWebhookConfig (fs 0) webhookID (messageStore s) of
                   Inl err \<Rightarrow> (SendJSONError ''Webhook not found: '' (Some err) 404, s)
                 | Inr config \<Rightarrow>
                     (case TestWebhook he config of
                        Some err \<Rightarrow> (SendJSONError ''Webhook test failed: '' (Some err) 500, s)
                      | None \<Rightarrow>
                          (ok_response [(''success'', JBool True),
                                        (''message'', JStr ''Webhook test successful'')], s))))
        else if subpath r = [''logs''] then
          (if Method r \<noteq> ''GET'' then (SendJSONError ''Method not allowed'' None 405, s)
           else (case GetWebhookLogs (fs 0) webhookID 100 (messageStore s) of
                   Inl err \<Rightarrow> (SendJSONError ''Failed to get webhook logs: '' (Some err) 500, s)
                 | Inr logs \<Rightarrow>
                     (ok_response [(''success'', JBool True),
                                   (''data'', JArr (map json_WebhookLog logs))], s)))
        else if subpath r = [''enable''] then
          (if Method r \<noteq> ''POST'' then (SendJSONError ''Method not allowed'' None 405, s)
           else (case body_enabled r of
                   None \<Rightarrow> (SendJSONError ''Invalid request format'' None 400, s)
                 | Some enabled \<Rightarrow>
                     (case GetWebhookConfig (fs 0) webhookID (messageStore s) of
                        Inl err \<Rightarrow> (SendJSONError ''Webhook not found: '' (Some err) 404, s)
                      | Inr config0 \<Rightarrow>
                          let config = config0\<lparr>cfg_Enabled := enabled\<rparr>
                          in (case UpdateWebhookConfig (fs 1) now config (messageStore s) of
                                (Inl err, store') \<Rightarrow>
                                  (SendJSONError ''Failed to update webhook config: '' (Some err) 500,
                                   s\<lparr>messageStore := store'\<rparr>)
                              | (Inr config', store') \<Rightarrow>
                                  (ok_response
                                     [(''success'', JBool True),
                                      (''message'', JStr (''Webhook '' @
                                          (if enabled then ''enabled'' else ''disabled'')
                                          @ '' successfully'')),
                                      (''data'', json_WebhookConfig config')],
                                   snd (LoadWebhookConfigs (fs 2) (s\<lparr>messageStore := store'\<rparr>)))))))
        else (SendJSONError ''Method not allowed'' None 405, s)))"

section \<open>Notions the claims are stated with\<close>

text \<open>
  The definitions of this section are not part of the source: they say what the claims
  mean by a reserved address, by the row a message is stored as, and so on.
\<close>

text \<open>The number a sequence of address bytes stands for (the first byte is the highest).\<close>

fun ip_num :: "IP \<Rightarrow> nat" where
  "ip_num [] = 0"
| "ip_num (b # bs) = unat b * 256 ^ length bs + ip_num bs"

text \<open>
  An address lies in the range \<open>base/n\<close> when it has the length of \<open>base\<close> and its
  first \<open>n\<close> bits are those of \<open>base\<close>: read as numbers, the two agree after the last
  \<open>8 * length - n\<close> bits are dropped.
\<close>

definition in_cidr :: "IP \<Rightarrow> nat \<Rightarrow> IP \<Rightarrow> bool" where
  "in_cidr base n ip =
     (length ip = length base
      \<and> ip_num ip div 2 ^ (8 * length base - n) = ip_num base div 2 ^ (8 * length base - n))"

text \<open>The ranges the filter is to reject, as the specification lists them.\<close>

definition reserved_cidrs :: "(IP \<times> nat) list" where
  "reserved_cidrs =
     [([10, 0, 0, 0], 8),
      ([172, 16, 0, 0], 12),
      ([192, 168, 0, 0], 16),
      ([127, 0, 0, 0], 8),
      ([169, 254, 0, 0], 16),
      ([0, 0, 0, 0], 8),
      ([224, 0, 0, 0], 4),
      ([240, 0, 0, 0], 4),
      ([0, 0, 0, 0, 0, 0, 0, 0, 0, 0, 0, 0, 0, 0, 0, 1], 128),
      ([0xfc, 0, 0, 0, 0, 0, 0, 0, 0, 0, 0, 0, 0, 0, 0, 0], 7),
      ([0xfe, 0x80, 0, 0, 0, 0, 0, 0, 0, 0, 0, 0, 0, 0, 0, 0], 10)]"

text \<open>
  An address is reserved when it lies in one of the ranges, an IPv4 address in either of
  its two forms, or is loopback, link-local or link-local multicast.
\<close>

definition in_reserved_range :: "IP \<Rightarrow> bool" where
  "in_reserved_range ip =
     (list_ex (\<lambda>(base, n). in_cidr base n (case To4 ip of Some ip4 \<Rightarrow> ip4 | None \<Rightarrow> ip))
        reserved_cidrs
      \<or> IsLoopback ip \<or> IsLinkLocalUnicast ip \<or> IsLinkLocalMulticast ip)"

text \<open>The row \<open>StoreMessage\<close> writes for its arguments.\<close>

definition stored_row :: "message_row \<Rightarrow> message_row" where
  "stored_row m = m\<lparr>msg_sender_name := (if msg_sender_name m = [] then msg_sender m else msg_sender_name m)\<rparr>"

definition droppable :: "message_row \<Rightarrow> bool" where
  "droppable m = (msg_content m = [] \<and> msg_media_type m = [])"

text \<open>The \<open>last_message_time\<close> values stored for a chat address (one per row of the address).\<close>

definition last_activity :: "string \<Rightarrow> MessageStore \<Rightarrow> time list" where
  "last_activity jid store = map last_message_time (filter (\<lambda>r. chat_jid r = jid) (chats store))"

text \<open>The columns of a trigger that the caller supplies.\<close>

definition trigger_spec :: "WebhookTrigger \<Rightarrow> string \<times> string \<times> string \<times> bool" where
  "trigger_spec t = (TriggerType t, TriggerValue t, MatchType t, trg_Enabled t)"


definition new_logs :: "MessageStore \<Rightarrow> MessageStore \<Rightarrow> WebhookLog list" where
  "new_logs store store' = drop (length (webhook_logs store)) (webhook_logs store')"





section \<open>Example data\<close>

text \<open>
  A store with two webhook configurations, their triggers and one delivery log each,
  used where a theorem is run on a concrete input.
\<close>

definition row_ex :: "int \<Rightarrow> string \<Rightarrow> config_row" where
  "row_ex i secret =
     \<lparr> row_id = i, row_name = ''hook'', row_webhook_url = ''https://hooks.example.org/in'',
       row_secret_token = secret, row_enabled = True, row_created_at = 10, row_updated_at = 10 \<rparr>"

definition trigger_ex :: "int \<Rightarrow> int \<Rightarrow> string \<Rightarrow> WebhookTrigger" where
  "trigger_ex i cid v =
     \<lparr> trg_ID = i, trg_WebhookConfigID = cid, TriggerType = ''keyword'', TriggerValue = v,
       MatchType = ''contains'', trg_Enabled = True \<rparr>"

definition log_ex :: "int \<Rightarrow> int \<Rightarrow> WebhookLog" where
  "log_ex i cid =
     \<lparr> log_ID = i, log_WebhookConfigID = cid, log_MessageID = ''M1'',
       log_ChatJID = ''111@s.whatsapp.net'', log_TriggerType = ''keyword'',
       log_TriggerValue = ''urgent'', log_Payload = ''{}'', ResponseStatus = 200,
       ResponseBody = ''ok'', AttemptCount = 1, DeliveredAt = Some 20, log_CreatedAt = 20 \<rparr>"

definition store_ex :: MessageStore where
  "store_ex =
     \<lparr> chats = [], messages = [],
       webhook_configs = [row_ex 1 ''s3cr3t-signing-key'', row_ex 2 ''other-signing-key''],
       webhook_triggers = [trigger_ex 1 1 ''urgent'', trigger_ex 2 2 ''hello'', trigger_ex 3 1 ''now''],
       webhook_logs = [log_ex 1 1, log_ex 2 2],
       seq_configs = 2, seq_triggers = 3, seq_logs = 2 \<rparr>"

definition config_ex :: WebhookConfig where
  "config_ex =
     \<lparr> cfg_ID = 1, cfg_Name = ''renamed'', WebhookURL = ''https://hooks.example.org/new'',
       SecretToken = ''n3w-signing-key'', cfg_Enabled = False, cfg_CreatedAt = 0,
       cfg_UpdatedAt = 0,
       Triggers = [trigger_ex 0 0 ''alpha'', trigger_ex 0 0 ''beta''] \<rparr>"

definition message_ex :: "string \<Rightarrow> string \<Rightarrow> string \<Rightarrow> message_row" where
  "message_ex i chat txt =
     \<lparr> msg_id = i, msg_chat_jid = chat, msg_sender = ''222'', msg_sender_name = [],
       msg_content = txt, msg_timestamp = 100, msg_is_from_me = False, msg_media_type = [],
       msg_filename = [], msg_url = [], msg_media_key = [], msg_file_sha256 = [],
       msg_file_enc_sha256 = [], msg_file_length = 0 \<rparr>"

definition empty_store :: MessageStore where
  "empty_store =
     \<lparr> chats = [], messages = [], webhook_configs = [], webhook_triggers = [],
       webhook_logs = [], seq_configs = 0, seq_triggers = 0, seq_logs = 0 \<rparr>"

definition event_ex :: "string \<Rightarrow> time \<Rightarrow> string \<Rightarrow> events_Message" where
  "event_ex i t txt =
     \<lparr> Info = \<lparr> Chat = ''111@s.whatsapp.net'', Sender = ''222@s.whatsapp.net'',
                SenderUser = ''222'', info_ID = i, Timestamp = t, PushName = ''Ann'',
                IsFromMe = False \<rparr>,
       ev_content = txt, ev_mediaType = [], ev_filename = [], ev_url = [], ev_mediaKey = [],
       ev_fileSHA256 = [], ev_fileEncSHA256 = [], ev_fileLength = 0 \<rparr>"

definition env_ex :: env where
  "env_ex = \<lparr> disable_ssrf_check = False,
              url_Hostname = (\<lambda>u. Some ''hooks.example.org''),
              LookupIP = (\<lambda>h. Some [[93, 184, 216, 34], [10, 0, 0, 5]]),
              regexp_MatchString = re_fragment \<rparr>"

definition request_ex :: "string \<Rightarrow> string \<Rightarrow> string list \<Rightarrow> api_request" where
  "request_ex m i sub =
     \<lparr> Method = m, path_id = i, scanned_id = (if i = ''1'' then Some 1 else None),
       subpath = sub, body_config = Some config_ex, body_enabled = Some False \<rparr>"

definition server_ex :: Server where
  "server_ex = \<lparr> messageStore = store_ex, configs = [] \<rparr>"

definition fs_none :: "nat \<Rightarrow> faults" where
  "fs_none = (\<lambda>j. no_faults)"

definition keyword_trigger :: "string \<Rightarrow> string \<Rightarrow> WebhookTrigger" where
  "keyword_trigger v m =
     \<lparr> trg_ID = 1, trg_WebhookConfigID = 1, TriggerType = ''keyword'', TriggerValue = v,
       MatchType = m, trg_Enabled = True \<rparr>"

definition he_ex :: "(nat \<Rightarrow> http_result) \<Rightarrow> http_env" where
  "he_ex answer =
     \<lparr> json_Marshal = (\<lambda>p. Some ''{}''),
       NewRequest_error = (\<lambda>u. None),
       http_Do = (\<lambda>k req. answer k),
       hmac_sha256_hex = (\<lambda>key b. ''00''),
       clock = (\<lambda>k. 100 + int k),
       rfc3339 = (\<lambda>t. ''2026-01-01T00:00:00Z'') \<rparr>"



definition payload_ex :: WebhookPayload where
  "payload_ex =
     \<lparr> EventType = ''message_received'', pl_Timestamp = ''2026-01-01T00:00:00Z'',
       pl_WebhookConfig = (1, ''hook''), pl_Trigger = (''keyword'', ''urgent'', ''contains''),
       pl_Message =
         \<lparr> wm_ID = ''M1'', wm_ChatJID = ''111@s.whatsapp.net'', wm_ChatName = ''Ann'',
           wm_Sender = ''222@s.whatsapp.net'', wm_SenderName = ''222'',
           wm_Content = ''This is urgent!'', wm_Timestamp = ''2026-01-01T00:00:00Z'',
           wm_PushName = ''Ann'', wm_IsFromMe = False, wm_MediaType = [], wm_Filename = [],
           wm_MediaDownloadURL = [] \<rparr>,
       Metadata = \<lparr> GroupInfo = None, DeliveryAttempt = 1, ProcessingTimeMs = 0 \<rparr> \<rparr>"

definition config1 :: WebhookConfig where
  "config1 = \<lparr> cfg_ID = 1, cfg_Name = ''hook'', WebhookURL = ''https://hooks.example.org/in'',
       SecretToken = ''s3cr3t-signing-key'', cfg_Enabled = True, cfg_CreatedAt = 10,
       cfg_UpdatedAt = 10, Triggers = [] \<rparr>"

definition chunked_2048 :: "nat \<Rightarrow> http_result" where
  "chunked_2048 k =
     Response 200 [replicate 512 (CHR ''x''), replicate 512 (CHR ''x''),
                   replicate 512 (CHR ''x''), replicate 512 (CHR ''x'')]"





text \<open>
  A store that holds the two chats the example messages belong to, and an HTTP
  environment whose \<open>json.Marshal\<close> fails.
\<close>

definition store_chats :: MessageStore where
  "store_chats =
     \<lparr> chats = [\<lparr>chat_jid = ''111@s.whatsapp.net'', chat_name = ''Ann'', last_message_time = 90\<rparr>,
                \<lparr>chat_jid = ''999@g.us'', chat_name = ''Team'', last_message_time = 80\<rparr>],
       messages = [], webhook_configs = [], webhook_triggers = [],
       webhook_logs = [], seq_configs = 0, seq_triggers = 0, seq_logs = 0 \<rparr>"


section \<open>Theorems\<close>

subsection \<open>The media-path guard\<close>

lemma allowed_loop_prefix:
  "allowed_loop getwd absPath allowedMediaDirs = list_ex (\<lambda>d. prefix d absPath) allowedMediaDirs"
  by (simp add: allowedMediaDirs_def Abs_def IsAbs_def HasPrefix_def Clean_def)

text \<open>
  Claim C10. The allow-list check of \<open>validateMediaPath\<close> is a plain string-prefix test
  on the canonicalised path: with the path check enabled, a non-empty path is accepted
  exactly when it holds no \<open>..\<close> and one of the allow-listed roots is a string prefix of
  its absolute form. So there is a path without \<open>..\<close> that lies outside every
  allow-listed root and is accepted all the same: \<open>/tmpfoo/x\<close>, whose absolute form
  merely begins with the string \<open>/tmp\<close>.
\<close>

theorem validateMediaPath_prefix_test:
  "validateMediaPath False getwd mediaPath =
     (if mediaPath = [] then None
      else (case Abs getwd (Clean mediaPath) of
              None \<Rightarrow> Some InvalidMediaPath
            | Some absPath \<Rightarrow>
                if Contains mediaPath ''..'' then Some PathTraversal
                else if list_ex (\<lambda>d. prefix d absPath) allowedMediaDirs then None
                else Some OutsideAllowedDirs))
   \<and> \<not> Contains ''/tmpfoo/x'' ''..''
   \<and> Abs getwd (Clean ''/tmpfoo/x'') = Some ''/tmpfoo/x''
   \<and> list_all (\<lambda>d. \<not> within_dir d ''/tmpfoo/x'') allowedMediaDirs
   \<and> validateMediaPath False getwd ''/tmpfoo/x'' = None"
proof -
  have general: "validateMediaPath False getwd mediaPath =
     (if mediaPath = [] then None
      else (case Abs getwd (Clean mediaPath) of
              None \<Rightarrow> Some InvalidMediaPath
            | Some absPath \<Rightarrow>
                if Contains mediaPath ''..'' then Some PathTraversal
                else if list_ex (\<lambda>d. prefix d absPath) allowedMediaDirs then None
                else Some OutsideAllowedDirs))"
    unfolding validateMediaPath_def allowed_loop_prefix by (simp split: option.splits)
  have abs: "Abs getwd (Clean ''/tmpfoo/x'') = Some ''/tmpfoo/x''"
    by (simp add: Abs_def IsAbs_def HasPrefix_def Clean_def)
  have nodots: "\<not> Contains ''/tmpfoo/x'' ''..''"
    by simp
  have outside: "list_all (\<lambda>d. \<not> within_dir d ''/tmpfoo/x'') allowedMediaDirs"
    by (simp add: within_dir_def allowedMediaDirs_def HasPrefix_def)
  have accepted: "validateMediaPath False getwd ''/tmpfoo/x'' = None"
    by (simp add: validateMediaPath_def Abs_def IsAbs_def HasPrefix_def Clean_def allowedMediaDirs_def)
  from general abs nodots outside accepted show ?thesis by blast
qed

subsection \<open>The webhook configuration store\<close>

lemma tx_insert_triggers_Inr:
  "tx_insert_triggers f i cid ts tx = Inr (ts', tx') \<Longrightarrow>
     tx' = tx\<lparr>webhook_triggers := webhook_triggers tx @ ts',
              seq_triggers := seq_triggers tx + int (length ts)\<rparr>
     \<and> map trigger_spec ts' = map trigger_spec ts
     \<and> list_all (\<lambda>t. trg_WebhookConfigID t = cid) ts'
     \<and> map trg_ID ts' = map (\<lambda>k. seq_triggers tx + 1 + int k) [0..<length ts]"
proof (induction ts arbitrary: i tx ts' tx')
  case Nil
  then show ?case by simp
next
  case (Cons t ts)
  let ?newid = "seq_triggers tx + 1"
  let ?t' = "t\<lparr>trg_WebhookConfigID := cid, trg_ID := ?newid\<rparr>"
  let ?tx1 = "tx\<lparr>webhook_triggers := webhook_triggers tx @ [?t'], seq_triggers := ?newid\<rparr>"
  from Cons.prems obtain rest tx2 where
    rec: "tx_insert_triggers f (i + 1) cid ts ?tx1 = Inr (rest, tx2)"
    and ts': "ts' = ?t' # rest" and tx': "tx' = tx2"
    by (auto simp: Let_def split: if_splits sum.splits)
  from Cons.IH[OF rec] have
    a: "tx2 = ?tx1\<lparr>webhook_triggers := webhook_triggers ?tx1 @ rest,
                   seq_triggers := seq_triggers ?tx1 + int (length ts)\<rparr>"
    and b: "map trigger_spec rest = map trigger_spec ts"
    and c: "list_all (\<lambda>t. trg_WebhookConfigID t = cid) rest"
    and d: "map trg_ID rest = map (\<lambda>k. seq_triggers ?tx1 + 1 + int k) [0..<length ts]"
    by blast+
  have e: "map (\<lambda>k. seq_triggers tx + 1 + int k) [0..<length (t # ts)]
           = ?newid # map (\<lambda>k. seq_triggers ?tx1 + 1 + int k) [0..<length ts]"
    by (simp add: upt_rec[of 0] map_Suc_upt[symmetric] del: upt_Suc)
  have h: "trigger_spec ?t' = trigger_spec t"
    by (simp add: trigger_spec_def)
  have 1: "tx' = tx\<lparr>webhook_triggers := webhook_triggers tx @ ts',
              seq_triggers := seq_triggers tx + int (length (t # ts))\<rparr>"
    using a ts' tx' by simp
  have 2: "map trigger_spec ts' = map trigger_spec (t # ts)"
    using b h ts' by simp
  have 3: "list_all (\<lambda>t. trg_WebhookConfigID t = cid) ts'"
    using c ts' by simp
  have 4: "map trg_ID ts' = map (\<lambda>k. seq_triggers tx + 1 + int k) [0..<length (t # ts)]"
    unfolding e using d ts' by simp
  from 1 2 3 4 show ?case by blast
qed

lemma tx_insert_triggers_no_faults:
  "\<exists>ts' tx'. tx_insert_triggers (\<lambda>k. False) i cid ts tx = Inr (ts', tx')"
proof (induction ts arbitrary: i tx)
  case Nil
  show ?case by simp
next
  case (Cons t ts)
  let ?t' = "t\<lparr>trg_WebhookConfigID := cid, trg_ID := seq_triggers tx + 1\<rparr>"
  let ?tx1 = "tx\<lparr>webhook_triggers := webhook_triggers tx @ [?t'], seq_triggers := seq_triggers tx + 1\<rparr>"
  from Cons.IH[of "i + 1" ?tx1] obtain rest tx2 where
    "tx_insert_triggers (\<lambda>k. False) (i + 1) cid ts ?tx1 = Inr (rest, tx2)" by blast
  then show ?case by (simp add: Let_def)
qed

lemma update_row_keeps:
  "row_id (update_row now config r) = row_id r"
  "row_created_at (update_row now config r) = row_created_at r"
  by (simp_all add: update_row_def)

lemma update_row_other:
  "row_id r \<noteq> cfg_ID config \<Longrightarrow> update_row now config r = r"
  by (simp add: update_row_def)

lemma update_row_fields:
  "row_id r = cfg_ID config \<Longrightarrow>
     row_name (update_row now config r) = cfg_Name config
     \<and> row_webhook_url (update_row now config r) = WebhookURL config
     \<and> row_secret_token (update_row now config r) = SecretToken config
     \<and> row_enabled (update_row now config r) = cfg_Enabled config
     \<and> row_updated_at (update_row now config r) = now"
  by (simp add: update_row_def)

lemma map_update_row:
  "map row_id (map (update_row now config) rows) = map row_id rows"
  "map row_created_at (map (update_row now config) rows) = map row_created_at rows"
  "filter (\<lambda>r. row_id r \<noteq> cfg_ID config) (map (update_row now config) rows)
     = filter (\<lambda>r. row_id r \<noteq> cfg_ID config) rows"
  "list_all (\<lambda>r. row_name r = cfg_Name config \<and> row_webhook_url r = WebhookURL config
                 \<and> row_secret_token r = SecretToken config \<and> row_enabled r = cfg_Enabled config
                 \<and> row_updated_at r = now)
     (filter (\<lambda>r. row_id r = cfg_ID config) (map (update_row now config) rows))"
proof -
  show "map row_id (map (update_row now config) rows) = map row_id rows"
    by (simp add: update_row_keeps comp_def)
  show "map row_created_at (map (update_row now config) rows) = map row_created_at rows"
    by (simp add: update_row_keeps comp_def)
  show "filter (\<lambda>r. row_id r \<noteq> cfg_ID config) (map (update_row now config) rows)
     = filter (\<lambda>r. row_id r \<noteq> cfg_ID config) rows"
    by (induction rows) (simp_all add: update_row_keeps update_row_other)
  show "list_all (\<lambda>r. row_name r = cfg_Name config \<and> row_webhook_url r = WebhookURL config
                 \<and> row_secret_token r = SecretToken config \<and> row_enabled r = cfg_Enabled config
                 \<and> row_updated_at r = now)
     (filter (\<lambda>r. row_id r = cfg_ID config) (map (update_row now config) rows))"
    by (induction rows) (simp_all add: update_row_keeps update_row_fields)
qed

text \<open>
  Claim C4. \<open>UpdateWebhookConfig\<close> is atomic. On every error (a failing \<open>Begin\<close>,
  \<open>UPDATE\<close>, \<open>DELETE\<close>, \<open>INSERT\<close> or \<open>Commit\<close>, and not-found) the store is what it
  was. On success the configuration's row existed and still exists, and every row of
  the configuration's id holds the name, the URL, the secret and the enabled flag of
  the struct given and the time of the update as \<open>updated_at\<close>; the ids and the
  \<open>created_at\<close> of all rows are what they were, and the rows of the other
  configurations are untouched. The triggers stored for the configuration are exactly
  the new ones (the struct's triggers as returned, which carry the columns the caller
  gave and the next ids of the table, in order; the rest of the struct is returned as
  given), and the triggers of the other
  configurations, the logs, the chats and the messages are untouched. It fails with
  not-found when the \<open>UPDATE\<close> touches no row, and it succeeds when the row exists and no
  database call fails.
\<close>

theorem UpdateWebhookConfig_atomic:
  "(case UpdateWebhookConfig f now config store of
      (Inl err, store') \<Rightarrow> store' = store
    | (Inr config', store') \<Rightarrow>
        list_ex (\<lambda>r. row_id r = cfg_ID config) (webhook_configs store)
        \<and> webhook_configs store' = map (update_row now config) (webhook_configs store)
        \<and> list_ex (\<lambda>r. row_id r = cfg_ID config) (webhook_configs store')
        \<and> list_all (\<lambda>r. row_name r = cfg_Name config \<and> row_webhook_url r = WebhookURL config
                       \<and> row_secret_token r = SecretToken config
                       \<and> row_enabled r = cfg_Enabled config \<and> row_updated_at r = now)
            (filter (\<lambda>r. row_id r = cfg_ID config) (webhook_configs store'))
        \<and> map row_id (webhook_configs store') = map row_id (webhook_configs store)
        \<and> map row_created_at (webhook_configs store') = map row_created_at (webhook_configs store)
        \<and> filter (\<lambda>r. row_id r \<noteq> cfg_ID config) (webhook_configs store')
            = filter (\<lambda>r. row_id r \<noteq> cfg_ID config) (webhook_configs store)
        \<and> config'\<lparr>Triggers := Triggers config\<rparr> = config
        \<and> filter (\<lambda>t. trg_WebhookConfigID t = cfg_ID config) (webhook_triggers store')
            = Triggers config'
        \<and> map trigger_spec (Triggers config') = map trigger_spec (Triggers config)
        \<and> map trg_ID (Triggers config')
            = map (\<lambda>k. seq_triggers store + 1 + int k) [0..<length (Triggers config)]
        \<and> filter (\<lambda>t. trg_WebhookConfigID t \<noteq> cfg_ID config) (webhook_triggers store')
            = filter (\<lambda>t. trg_WebhookConfigID t \<noteq> cfg_ID config) (webhook_triggers store)
        \<and> webhook_logs store' = webhook_logs store
        \<and> chats store' = chats store \<and> messages store' = messages store)
   \<and> (\<not> list_ex (\<lambda>r. row_id r = cfg_ID config) (webhook_configs store)
          \<and> \<not> f 0 \<and> \<not> f 1 \<and> \<not> f 2
        \<longrightarrow> UpdateWebhookConfig f now config store = (Inl (WebhookNotFound (cfg_ID config)), store))
   \<and> (list_ex (\<lambda>r. row_id r = cfg_ID config) (webhook_configs store) \<and> (\<forall>k. \<not> f k)
        \<longrightarrow> (\<exists>config' store'. UpdateWebhookConfig f now config store = (Inr config', store')))"
proof -
  let ?id = "cfg_ID config"
  let ?has = "list_ex (\<lambda>r. row_id r = ?id) (webhook_configs store)"
  have count: "(length (filter (\<lambda>r. row_id r = ?id) (webhook_configs store)) = 0) = (\<not> ?has)"
    by (simp add: list_ex_iff filter_empty_conv)
  let ?tx1 = "store\<lparr>webhook_configs := map (update_row now config) (webhook_configs store)\<rparr>"
  let ?tx2 = "?tx1\<lparr>webhook_triggers := filter (\<lambda>t. trg_WebhookConfigID t \<noteq> ?id) (webhook_triggers ?tx1)\<rparr>"
  note rows = map_update_row[where now = now and config = config and rows = "webhook_configs store"]
  have A: "(case UpdateWebhookConfig f now config store of
      (Inl err, store') \<Rightarrow> store' = store
    | (Inr config', store') \<Rightarrow>
        ?has
        \<and> webhook_configs store' = map (update_row now config) (webhook_configs store)
        \<and> list_ex (\<lambda>r. row_id r = ?id) (webhook_configs store')
        \<and> list_all (\<lambda>r. row_name r = cfg_Name config \<and> row_webhook_url r = WebhookURL config
                       \<and> row_secret_token r = SecretToken config
                       \<and> row_enabled r = cfg_Enabled config \<and> row_updated_at r = now)
            (filter (\<lambda>r. row_id r = ?id) (webhook_configs store'))
        \<and> map row_id (webhook_configs store') = map row_id (webhook_configs store)
        \<and> map row_created_at (webhook_configs store') = map row_created_at (webhook_configs store)
        \<and> filter (\<lambda>r. row_id r \<noteq> ?id) (webhook_configs store')
            = filter (\<lambda>r. row_id r \<noteq> ?id) (webhook_configs store)
        \<and> config'\<lparr>Triggers := Triggers config\<rparr> = config
        \<and> filter (\<lambda>t. trg_WebhookConfigID t = ?id) (webhook_triggers store') = Triggers config'
        \<and> map trigger_spec (Triggers config') = map trigger_spec (Triggers config)
        \<and> map trg_ID (Triggers config')
            = map (\<lambda>k. seq_triggers store + 1 + int k) [0..<length (Triggers config)]
        \<and> filter (\<lambda>t. trg_WebhookConfigID t \<noteq> ?id) (webhook_triggers store')
            = filter (\<lambda>t. trg_WebhookConfigID t \<noteq> ?id) (webhook_triggers store)
        \<and> webhook_logs store' = webhook_logs store
        \<and> chats store' = chats store \<and> messages store' = messages store)"
  proof (cases "UpdateWebhookConfig f now config store")
    case (Pair r store')
    show ?thesis
    proof (cases r)
      case (Inl err)
      with Pair have "store' = store"
        by (auto simp: UpdateWebhookConfig_def Let_def split: if_splits sum.splits prod.splits)
      with Pair Inl show ?thesis by simp
    next
      case (Inr config')
      with Pair obtain ts' tx3 where
        ins: "tx_insert_triggers f 0 ?id (Triggers config) ?tx2 = Inr (ts', tx3)"
        and has: "?has" and c': "config' = config\<lparr>Triggers := ts'\<rparr>" and s': "store' = tx3"
        unfolding UpdateWebhookConfig_def Let_def count
        by (auto split: if_splits sum.splits prod.splits)
      from tx_insert_triggers_Inr[OF ins] have
        tx3: "tx3 = ?tx2\<lparr>webhook_triggers := webhook_triggers ?tx2 @ ts',
                         seq_triggers := seq_triggers ?tx2 + int (length (Triggers config))\<rparr>"
        and spec: "map trigger_spec ts' = map trigger_spec (Triggers config)"
        and own: "list_all (\<lambda>t. trg_WebhookConfigID t = ?id) ts'"
        and ids: "map trg_ID ts' = map (\<lambda>k. seq_triggers ?tx2 + 1 + int k) [0..<length (Triggers config)]"
        by blast+
      have f1: "filter (\<lambda>t. trg_WebhookConfigID t = ?id) ts' = ts'"
        using own by (simp add: list_all_iff)
      have f2: "filter (\<lambda>t. trg_WebhookConfigID t \<noteq> ?id) ts' = []"
        using own by (simp add: list_all_iff filter_empty_conv)
      have cfgs: "webhook_configs store' = map (update_row now config) (webhook_configs store)"
        by (simp add: s' tx3)
      have has': "list_ex (\<lambda>r. row_id r = ?id) (webhook_configs store')"
        using has unfolding cfgs by (simp add: list_ex_iff update_row_keeps)
      have unch: "config'\<lparr>Triggers := Triggers config\<rparr> = config"
        by (simp add: c')
      have rest: "filter (\<lambda>t. trg_WebhookConfigID t = ?id) (webhook_triggers store') = Triggers config'
        \<and> map trigger_spec (Triggers config') = map trigger_spec (Triggers config)
        \<and> map trg_ID (Triggers config')
            = map (\<lambda>k. seq_triggers store + 1 + int k) [0..<length (Triggers config)]
        \<and> filter (\<lambda>t. trg_WebhookConfigID t \<noteq> ?id) (webhook_triggers store')
            = filter (\<lambda>t. trg_WebhookConfigID t \<noteq> ?id) (webhook_triggers store)
        \<and> webhook_logs store' = webhook_logs store
        \<and> chats store' = chats store \<and> messages store' = messages store"
        using spec f1 f2 ids by (simp add: c' s' tx3)
      from has cfgs has' rows[folded cfgs] unch rest
      show ?thesis unfolding Pair Inr by simp
    qed
  qed
  have B: "\<not> ?has \<and> \<not> f 0 \<and> \<not> f 1 \<and> \<not> f 2
        \<longrightarrow> UpdateWebhookConfig f now config store = (Inl (WebhookNotFound ?id), store)"
    unfolding UpdateWebhookConfig_def Let_def count by simp
  have C: "?has \<and> (\<forall>k. \<not> f k)
        \<longrightarrow> (\<exists>config' store'. UpdateWebhookConfig f now config store = (Inr config', store'))"
  proof
    assume h: "?has \<and> (\<forall>k. \<not> f k)"
    then have nf: "f = (\<lambda>k. False)" by (simp add: fun_eq_iff)
    from tx_insert_triggers_no_faults[of 0 ?id "Triggers config" ?tx2]
    obtain ts' tx3 where "tx_insert_triggers f 0 ?id (Triggers config) ?tx2 = Inr (ts', tx3)"
      unfolding nf by blast
    with h show "\<exists>config' store'. UpdateWebhookConfig f now config store = (Inr config', store')"
      unfolding UpdateWebhookConfig_def Let_def count by simp
  qed
  from A B C show ?thesis by blast
qed

theorem UpdateWebhookConfig_atomic_witness:
  "list_ex (\<lambda>r. row_id r = cfg_ID config_ex) (webhook_configs store_ex)
   \<and> (\<forall>k. \<not> no_faults k)
   \<and> (\<exists>config' store'. UpdateWebhookConfig no_faults 50 config_ex store_ex = (Inr config', store'))
   \<and> webhook_configs (snd (UpdateWebhookConfig no_faults 50 config_ex store_ex))
       = [\<lparr> row_id = 1, row_name = ''renamed'', row_webhook_url = ''https://hooks.example.org/new'',
            row_secret_token = ''n3w-signing-key'', row_enabled = False, row_created_at = 10,
            row_updated_at = 50 \<rparr>,
          row_ex 2 ''other-signing-key'']
   \<and> map (\<lambda>t. (trg_ID t, trg_WebhookConfigID t, TriggerValue t))
        (webhook_triggers (snd (UpdateWebhookConfig no_faults 50 config_ex store_ex)))
       = [(2, 2, ''hello''), (4, 1, ''alpha''), (5, 1, ''beta'')]
   \<and> \<not> list_ex (\<lambda>r. row_id r = cfg_ID (config_ex\<lparr>cfg_ID := 7\<rparr>)) (webhook_configs store_ex)
   \<and> UpdateWebhookConfig no_faults 50 (config_ex\<lparr>cfg_ID := 7\<rparr>) store_ex
        = (Inl (WebhookNotFound 7), store_ex)
   \<and> UpdateWebhookConfig (fault_at 6) 50 config_ex store_ex = (Inl (InsertTriggerFailed 1), store_ex)"
proof -
  have h1: "list_ex (\<lambda>r. row_id r = cfg_ID config_ex) (webhook_configs store_ex)
            \<and> (\<forall>k. \<not> no_faults k)"
    by (simp add: config_ex_def store_ex_def row_ex_def no_faults_def)
  have h2: "\<not> list_ex (\<lambda>r. row_id r = cfg_ID (config_ex\<lparr>cfg_ID := 7\<rparr>)) (webhook_configs store_ex)
            \<and> \<not> no_faults 0 \<and> \<not> no_faults 1 \<and> \<not> no_faults 2"
    by (simp add: store_ex_def row_ex_def no_faults_def)
  from h1 UpdateWebhookConfig_atomic[where f = no_faults and now = 50 and config = config_ex and store = store_ex]
  have a: "\<exists>config' store'. UpdateWebhookConfig no_faults 50 config_ex store_ex = (Inr config', store')"
    by blast
  from h2 UpdateWebhookConfig_atomic[where f = no_faults and now = 50 and config = "config_ex\<lparr>cfg_ID := 7\<rparr>" and store = store_ex]
  have b: "UpdateWebhookConfig no_faults 50 (config_ex\<lparr>cfg_ID := 7\<rparr>) store_ex
             = (Inl (WebhookNotFound 7), store_ex)"
    by simp
  have c: "webhook_configs (snd (UpdateWebhookConfig no_faults 50 config_ex store_ex))
       = [\<lparr> row_id = 1, row_name = ''renamed'', row_webhook_url = ''https://hooks.example.org/new'',
            row_secret_token = ''n3w-signing-key'', row_enabled = False, row_created_at = 10,
            row_updated_at = 50 \<rparr>,
          row_ex 2 ''other-signing-key'']"
    by (simp add: UpdateWebhookConfig_def update_row_def config_ex_def store_ex_def row_ex_def
        trigger_ex_def no_faults_def Let_def)
  have d: "map (\<lambda>t. (trg_ID t, trg_WebhookConfigID t, TriggerValue t))
        (webhook_triggers (snd (UpdateWebhookConfig no_faults 50 config_ex store_ex)))
       = [(2, 2, ''hello''), (4, 1, ''alpha''), (5, 1, ''beta'')]"
    by (simp add: UpdateWebhookConfig_def update_row_def config_ex_def store_ex_def row_ex_def
        trigger_ex_def no_faults_def Let_def)
  have e: "UpdateWebhookConfig (fault_at 6) 50 config_ex store_ex = (Inl (InsertTriggerFailed 1), store_ex)"
    by (simp add: UpdateWebhookConfig_def update_row_def config_ex_def store_ex_def row_ex_def
        trigger_ex_def fault_at_def Let_def)
  from h1 h2 a b c d e show ?thesis by blast
qed

text \<open>
  Claim C5, as stated, fails: \<open>DeleteWebhookConfig\<close> does not run in a transaction.
  When the second \<open>DELETE\<close> fails, the delete returns an error and the logs of the
  configuration are gone, while the configuration is still there.
\<close>

theorem DeleteWebhookConfig_not_atomic:
  "DeleteWebhookConfig (fault_at 2) 1 store_ex
     = (Some SqlError, store_ex\<lparr>webhook_logs := [log_ex 2 2]\<rparr>)
   \<and> webhook_logs store_ex = [log_ex 1 1, log_ex 2 2]
   \<and> list_ex (\<lambda>r. row_id r = 1) (webhook_configs (snd (DeleteWebhookConfig (fault_at 2) 1 store_ex)))"
  by (simp add: DeleteWebhookConfig_def fault_at_def store_ex_def row_ex_def log_ex_def)

text \<open>
  Claim C5, amended. \<open>DeleteWebhookConfig\<close> first checks that the configuration
  exists and fails with not-found, the store unchanged, when it does not. After a
  successful delete no configuration row has the id and no trigger row and no log row
  refers to it; the delete succeeds when the row exists and no statement fails. In
  every case the rows of the other configurations are untouched. (The three deletes
  are separate statements: the theorem promises nothing about the rows of the
  configuration when one of them fails.)
\<close>

theorem DeleteWebhookConfig_cascade:
  "(\<not> list_ex (\<lambda>r. row_id r = id') (webhook_configs store) \<and> \<not> f 0
      \<longrightarrow> DeleteWebhookConfig f id' store = (Some (WebhookNotFound id'), store))
   \<and> (\<not> list_ex (\<lambda>r. row_id r = id') (webhook_configs store)
      \<longrightarrow> fst (DeleteWebhookConfig f id' store) \<noteq> None
          \<and> snd (DeleteWebhookConfig f id' store) = store)
   \<and> (fst (DeleteWebhookConfig f id' store) = None
      \<longrightarrow> \<not> list_ex (\<lambda>r. row_id r = id') (webhook_configs (snd (DeleteWebhookConfig f id' store)))
          \<and> \<not> list_ex (\<lambda>t. trg_WebhookConfigID t = id') (webhook_triggers (snd (DeleteWebhookConfig f id' store)))
          \<and> \<not> list_ex (\<lambda>l. log_WebhookConfigID l = id') (webhook_logs (snd (DeleteWebhookConfig f id' store))))
   \<and> (list_ex (\<lambda>r. row_id r = id') (webhook_configs store) \<and> (\<forall>k. \<not> f k)
      \<longrightarrow> fst (DeleteWebhookConfig f id' store) = None)
   \<and> filter (\<lambda>r. row_id r \<noteq> id') (webhook_configs (snd (DeleteWebhookConfig f id' store)))
        = filter (\<lambda>r. row_id r \<noteq> id') (webhook_configs store)
   \<and> filter (\<lambda>t. trg_WebhookConfigID t \<noteq> id') (webhook_triggers (snd (DeleteWebhookConfig f id' store)))
        = filter (\<lambda>t. trg_WebhookConfigID t \<noteq> id') (webhook_triggers store)
   \<and> filter (\<lambda>l. log_WebhookConfigID l \<noteq> id') (webhook_logs (snd (DeleteWebhookConfig f id' store)))
        = filter (\<lambda>l. log_WebhookConfigID l \<noteq> id') (webhook_logs store)"
proof -
  have count: "(length (filter (\<lambda>r. row_id r = id') (webhook_configs store)) = 0)
                 = (\<not> list_ex (\<lambda>r. row_id r = id') (webhook_configs store))"
    by (simp add: list_ex_iff filter_empty_conv)
  show ?thesis
    unfolding DeleteWebhookConfig_def Let_def count
    by (simp add: list_ex_iff)
qed


theorem DeleteWebhookConfig_cascade_witness:
  "list_ex (\<lambda>r. row_id r = 1) (webhook_configs store_ex) \<and> (\<forall>k. \<not> no_faults k)
   \<and> fst (DeleteWebhookConfig no_faults 1 store_ex) = None
   \<and> \<not> list_ex (\<lambda>t. trg_WebhookConfigID t = 1)
            (webhook_triggers (snd (DeleteWebhookConfig no_faults 1 store_ex)))
   \<and> \<not> list_ex (\<lambda>l. log_WebhookConfigID l = 1)
            (webhook_logs (snd (DeleteWebhookConfig no_faults 1 store_ex)))
   \<and> \<not> list_ex (\<lambda>r. row_id r = 7) (webhook_configs store_ex) \<and> \<not> no_faults 0
   \<and> DeleteWebhookConfig no_faults 7 store_ex = (Some (WebhookNotFound 7), store_ex)"
proof -
  have h1: "list_ex (\<lambda>r. row_id r = 1) (webhook_configs store_ex) \<and> (\<forall>k. \<not> no_faults k)"
    by (simp add: store_ex_def row_ex_def no_faults_def)
  have h2: "\<not> list_ex (\<lambda>r. row_id r = 7) (webhook_configs store_ex) \<and> \<not> no_faults 0"
    by (simp add: store_ex_def row_ex_def no_faults_def)
  from h1 DeleteWebhookConfig_cascade[where id' = 1 and store = store_ex and f = no_faults]
  have a: "fst (DeleteWebhookConfig no_faults 1 store_ex) = None" by blast
  from a DeleteWebhookConfig_cascade[where id' = 1 and store = store_ex and f = no_faults]
  have b: "\<not> list_ex (\<lambda>t. trg_WebhookConfigID t = 1)
               (webhook_triggers (snd (DeleteWebhookConfig no_faults 1 store_ex)))
           \<and> \<not> list_ex (\<lambda>l. log_WebhookConfigID l = 1)
               (webhook_logs (snd (DeleteWebhookConfig no_faults 1 store_ex)))" by blast
  from h2 DeleteWebhookConfig_cascade[where id' = 7 and store = store_ex and f = no_faults]
  have c: "DeleteWebhookConfig no_faults 7 store_ex = (Some (WebhookNotFound 7), store_ex)"
    by blast
  from h1 h2 a b c show ?thesis by blast
qed

subsection \<open>Messages and chats\<close>

text \<open>
  Claim C6, as stated, fails for a message with neither text nor media: \<open>StoreMessage\<close>
  drops it, so after two calls no row holds its key.
\<close>

theorem StoreMessage_empty_twice:
  "StoreMessage no_faults (message_ex ''M1'' ''111@s.whatsapp.net'' []) empty_store
     = (None, empty_store)
   \<and> length (filter (same_key ''M1'' ''111@s.whatsapp.net'')
        (messages (snd (StoreMessage no_faults (message_ex ''M1'' ''111@s.whatsapp.net'' [])
           (snd (StoreMessage no_faults (message_ex ''M1'' ''111@s.whatsapp.net'' []) empty_store))))))
     = 0"
  by (simp add: StoreMessage_def message_ex_def empty_store_def)

text \<open>
  Claim C6, amended. A message with empty text and empty media kind is dropped: the
  call returns no error and the store is unchanged. For every other message the
  insert is an upsert keyed by (id, chat address): when the statement does not fail,
  exactly one row holds the key afterwards, it is the row of this call (the sender
  name replaced by the sender when empty), and the rows under other keys, the same id
  in another chat among them, are untouched; when the statement fails the store is
  unchanged. So after two calls with the same key, the second one stored, the one row
  of the key is the row of the second call.
\<close>

theorem StoreMessage_upsert:
  "(droppable m \<longrightarrow> StoreMessage f m store = (None, store))
   \<and> (\<not> droppable m \<and> f 0 \<longrightarrow> StoreMessage f m store = (Some SqlError, store))
   \<and> (\<not> droppable m \<and> \<not> f 0 \<longrightarrow>
        fst (StoreMessage f m store) = None
        \<and> filter (same_key (msg_id m) (msg_chat_jid m)) (messages (snd (StoreMessage f m store)))
            = [stored_row m]
        \<and> filter (\<lambda>r. \<not> same_key (msg_id m) (msg_chat_jid m) r) (messages (snd (StoreMessage f m store)))
            = filter (\<lambda>r. \<not> same_key (msg_id m) (msg_chat_jid m) r) (messages store))
   \<and> (\<not> droppable m' \<and> \<not> f' 0 \<and> msg_id m' = msg_id m \<and> msg_chat_jid m' = msg_chat_jid m \<longrightarrow>
        filter (same_key (msg_id m) (msg_chat_jid m))
          (messages (snd (StoreMessage f' m' (snd (StoreMessage f m store)))))
        = [stored_row m'])"
proof -
  have key: "same_key (msg_id m) (msg_chat_jid m) (stored_row m)" for m
    by (simp add: same_key_def stored_row_def)
  have one: "\<not> droppable m \<and> \<not> f 0 \<longrightarrow>
        fst (StoreMessage f m store) = None
        \<and> filter (same_key (msg_id m) (msg_chat_jid m)) (messages (snd (StoreMessage f m store)))
            = [stored_row m]
        \<and> filter (\<lambda>r. \<not> same_key (msg_id m) (msg_chat_jid m) r) (messages (snd (StoreMessage f m store)))
            = filter (\<lambda>r. \<not> same_key (msg_id m) (msg_chat_jid m) r) (messages store)"
    for f m store
    using key[of m]
    by (auto simp: StoreMessage_def droppable_def Let_def stored_row_def filter_empty_conv)
  have a: "droppable m \<longrightarrow> StoreMessage f m store = (None, store)"
    by (simp add: StoreMessage_def droppable_def)
  have b: "\<not> droppable m \<and> f 0 \<longrightarrow> StoreMessage f m store = (Some SqlError, store)"
    by (simp add: StoreMessage_def droppable_def Let_def)
  have c: "\<not> droppable m' \<and> \<not> f' 0 \<and> msg_id m' = msg_id m \<and> msg_chat_jid m' = msg_chat_jid m \<longrightarrow>
        filter (same_key (msg_id m) (msg_chat_jid m))
          (messages (snd (StoreMessage f' m' (snd (StoreMessage f m store)))))
        = [stored_row m']"
    using one[of m' f' "snd (StoreMessage f m store)"] by auto
  from a b one[of m f store] c show ?thesis by blast
qed


theorem StoreMessage_upsert_witness:
  "\<not> droppable (message_ex ''M1'' ''111@s.whatsapp.net'' ''second'') \<and> \<not> no_faults 0
   \<and> msg_id (message_ex ''M1'' ''111@s.whatsapp.net'' ''second'')
        = msg_id (message_ex ''M1'' ''111@s.whatsapp.net'' ''first'')
   \<and> msg_chat_jid (message_ex ''M1'' ''111@s.whatsapp.net'' ''second'')
        = msg_chat_jid (message_ex ''M1'' ''111@s.whatsapp.net'' ''first'')
   \<and> map chat_jid (chats store_chats) = [''111@s.whatsapp.net'', ''999@g.us'']
   \<and> filter (same_key ''M1'' ''111@s.whatsapp.net'')
        (messages (snd (StoreMessage no_faults (message_ex ''M1'' ''111@s.whatsapp.net'' ''second'')
           (snd (StoreMessage no_faults (message_ex ''M1'' ''111@s.whatsapp.net'' ''first'')
              (snd (StoreMessage no_faults (message_ex ''M1'' ''999@g.us'' ''other chat'') store_chats)))))))
       = [stored_row (message_ex ''M1'' ''111@s.whatsapp.net'' ''second'')]
   \<and> filter (same_key ''M1'' ''999@g.us'')
        (messages (snd (StoreMessage no_faults (message_ex ''M1'' ''111@s.whatsapp.net'' ''second'')
           (snd (StoreMessage no_faults (message_ex ''M1'' ''111@s.whatsapp.net'' ''first'')
              (snd (StoreMessage no_faults (message_ex ''M1'' ''999@g.us'' ''other chat'') store_chats)))))))
       = [stored_row (message_ex ''M1'' ''999@g.us'' ''other chat'')]"
proof -
  let ?m = "message_ex ''M1'' ''111@s.whatsapp.net'' ''first''"
  let ?m' = "message_ex ''M1'' ''111@s.whatsapp.net'' ''second''"
  let ?s0 = "snd (StoreMessage no_faults (message_ex ''M1'' ''999@g.us'' ''other chat'') store_chats)"
  have h: "\<not> droppable ?m' \<and> \<not> no_faults 0 \<and> msg_id ?m' = msg_id ?m
           \<and> msg_chat_jid ?m' = msg_chat_jid ?m"
    by (simp add: droppable_def message_ex_def no_faults_def)
  have k: "msg_id ?m = ''M1'' \<and> msg_chat_jid ?m = ''111@s.whatsapp.net''"
    by (simp add: message_ex_def)
  have ch: "map chat_jid (chats store_chats) = [''111@s.whatsapp.net'', ''999@g.us'']"
    by (simp add: store_chats_def)
  from h StoreMessage_upsert[where m = ?m and m' = ?m' and f = no_faults and f' = no_faults
      and store = ?s0]
  have a: "filter (same_key (msg_id ?m) (msg_chat_jid ?m))
             (messages (snd (StoreMessage no_faults ?m' (snd (StoreMessage no_faults ?m ?s0)))))
           = [stored_row ?m']"
    by blast
  have b: "filter (same_key ''M1'' ''999@g.us'')
             (messages (snd (StoreMessage no_faults ?m' (snd (StoreMessage no_faults ?m ?s0)))))
           = [stored_row (message_ex ''M1'' ''999@g.us'' ''other chat'')]"
    by (simp add: StoreMessage_def message_ex_def store_chats_def no_faults_def same_key_def
        stored_row_def)
  from h a b k ch show ?thesis by simp
qed

text \<open>
  Claim C9, as stated, fails: \<open>StoreChat\<close> replaces the row of the chat, and
  \<open>HandleMessage\<close> calls it with the timestamp of the message at hand. A message of
  time 100 handled after one of time 200 moves the chat's time back from 200 to 100.
\<close>

theorem last_activity_moves_backward:
  "last_activity ''111@s.whatsapp.net''
     (HandleMessage no_faults ''Ann'' (event_ex ''M1'' 200 ''new'') empty_store) = [200]
   \<and> last_activity ''111@s.whatsapp.net''
     (HandleMessage no_faults ''Ann'' (event_ex ''M0'' 100 ''old'')
        (HandleMessage no_faults ''Ann'' (event_ex ''M1'' 200 ''new'') empty_store)) = [100]"
  by (simp add: last_activity_def HandleMessage_def GetChatName_def StoreChat_def StoreMessage_def
      shift_def no_faults_def event_ex_def empty_store_def Let_def)

lemma chats_StoreMessage: "chats (snd (StoreMessage f m store)) = chats store"
  by (simp add: StoreMessage_def Let_def)

text \<open>
  Claim C9, amended. A chat store that does not fail leaves one row for the address
  and sets its \<open>last_message_time\<close> to the time it was given, whatever the old value; a
  failing one changes nothing; the rows of other addresses keep their times. So after
  \<open>HandleMessage\<close> (its \<open>StoreChat\<close> not failing) the time stored for the chat is the
  timestamp of the message just handled.
\<close>

theorem last_activity_is_last_stored:
  "(\<not> f 0 \<longrightarrow>
      fst (StoreChat f jid name t store) = None
      \<and> last_activity jid (snd (StoreChat f jid name t store)) = [t])
   \<and> (f 0 \<longrightarrow> StoreChat f jid name t store = (Some SqlError, store))
   \<and> (jid' \<noteq> jid \<longrightarrow>
        last_activity jid' (snd (StoreChat f jid name t store)) = last_activity jid' store)
   \<and> (\<not> g 1 \<longrightarrow>
        last_activity (Chat (Info msg)) (HandleMessage g resolved msg store) = [Timestamp (Info msg)])"
proof -
  have a: "\<not> f 0 \<longrightarrow>
      fst (StoreChat f jid name t store) = None
      \<and> last_activity jid (snd (StoreChat f jid name t store)) = [t]" for f jid name t store
    by (simp add: StoreChat_def last_activity_def filter_empty_conv)
  have b: "f 0 \<longrightarrow> StoreChat f jid name t store = (Some SqlError, store)"
    by (simp add: StoreChat_def)
  have c: "jid' \<noteq> jid \<longrightarrow>
        last_activity jid' (snd (StoreChat f jid name t store)) = last_activity jid' store"
  proof
    assume ne: "jid' \<noteq> jid"
    have "filter (\<lambda>x. chat_jid x \<noteq> jid \<and> chat_jid x = jid') (chats store)
            = filter (\<lambda>r. chat_jid r = jid') (chats store)"
      using ne by (intro filter_cong) auto
    with ne show "last_activity jid' (snd (StoreChat f jid name t store)) = last_activity jid' store"
      by (simp add: StoreChat_def last_activity_def)
  qed
  have d: "\<not> g 1 \<longrightarrow>
        last_activity (Chat (Info msg)) (HandleMessage g resolved msg store) = [Timestamp (Info msg)]"
  proof
    assume "\<not> g 1"
    then have "\<not> shift 1 g 0" by (simp add: shift_def)
    with a[of "shift 1 g"] have
      "last_activity (Chat (Info msg))
         (snd (StoreChat (shift 1 g) (Chat (Info msg))
            (GetChatName g resolved (Chat (Info msg)) store) (Timestamp (Info msg)) store))
       = [Timestamp (Info msg)]" by blast
    then show "last_activity (Chat (Info msg)) (HandleMessage g resolved msg store) = [Timestamp (Info msg)]"
      by (simp add: HandleMessage_def Let_def last_activity_def chats_StoreMessage)
  qed
  from a b c d show ?thesis by blast
qed


theorem last_activity_is_last_stored_witness:
  "\<not> no_faults 0 \<and> \<not> no_faults 1
   \<and> last_activity ''111@s.whatsapp.net''
        (snd (StoreChat no_faults ''111@s.whatsapp.net'' ''Ann'' 100
           (snd (StoreChat no_faults ''111@s.whatsapp.net'' ''Ann'' 200 empty_store)))) = [100]
   \<and> last_activity (Chat (Info (event_ex ''M0'' 100 ''old'')))
        (HandleMessage no_faults ''Ann'' (event_ex ''M0'' 100 ''old'')
           (HandleMessage no_faults ''Ann'' (event_ex ''M1'' 200 ''new'') empty_store))
       = [Timestamp (Info (event_ex ''M0'' 100 ''old''))]"
proof -
  have h: "\<not> no_faults 0 \<and> \<not> no_faults 1" by (simp add: no_faults_def)
  from h last_activity_is_last_stored[where f = no_faults and jid = "''111@s.whatsapp.net''"
      and name = "''Ann''" and t = 100
      and store = "snd (StoreChat no_faults ''111@s.whatsapp.net'' ''Ann'' 200 empty_store)"]
  have a: "last_activity ''111@s.whatsapp.net''
        (snd (StoreChat no_faults ''111@s.whatsapp.net'' ''Ann'' 100
           (snd (StoreChat no_faults ''111@s.whatsapp.net'' ''Ann'' 200 empty_store)))) = [100]"
    by blast
  from h last_activity_is_last_stored[where g = no_faults and msg = "event_ex ''M0'' 100 ''old''"
      and resolved = "''Ann''"
      and store = "HandleMessage no_faults ''Ann'' (event_ex ''M1'' 200 ''new'') empty_store"]
  have b: "last_activity (Chat (Info (event_ex ''M0'' 100 ''old'')))
        (HandleMessage no_faults ''Ann'' (event_ex ''M0'' 100 ''old'')
           (HandleMessage no_faults ''Ann'' (event_ex ''M1'' 200 ''new'') empty_store))
       = [Timestamp (Info (event_ex ''M0'' 100 ''old''))]"
    by blast
  from h a b show ?thesis by blast
qed

subsection \<open>The SSRF filter\<close>

text \<open>
  The masks of \<open>net.IPNet.Contains\<close> against the reading of a range \<open>base/n\<close> as a
  condition on the number the address stands for.
\<close>

lemma byte_ff: "(0xff :: byte) = mask 8"
  by (simp add: mask_eq_exp_minus_1)

lemma byte_mask_eq: "drop_bit k (0xff :: byte) = mask (8 - k)"
  unfolding byte_ff by (rule bit_eqI) (auto simp: bit_simps)

lemma and_not_mask_eq_iff:
  fixes x y :: byte
  shows "(x AND NOT (mask j) = y AND NOT (mask j)) = (drop_bit j x = drop_bit j y)"
proof
  assume h: "x AND NOT (mask j) = y AND NOT (mask j)"
  show "drop_bit j x = drop_bit j y"
  proof (rule bit_eqI)
    fix i
    have "bit (x AND NOT (mask j)) (j + i) = bit (y AND NOT (mask j)) (j + i)" using h by simp
    then show "bit (drop_bit j x) i = bit (drop_bit j y) i"
      by (auto simp: bit_simps dest: bit_imp_le_length)
  qed
next
  assume h: "drop_bit j x = drop_bit j y"
  show "x AND NOT (mask j) = y AND NOT (mask j)"
  proof (rule bit_eqI)
    fix i
    show "bit (x AND NOT (mask j)) i = bit (y AND NOT (mask j)) i"
    proof (cases "j \<le> i")
      case True
      then obtain d where "i = j + d" using le_Suc_ex by blast
      moreover have "bit (drop_bit j x) d = bit (drop_bit j y) d" using h by simp
      ultimately show ?thesis by (auto simp: bit_simps)
    next
      case False
      then show ?thesis by (simp add: bit_simps)
    qed
  qed
qed

lemma byte_and_mask_byte:
  fixes x y :: byte
  assumes "k \<le> 8"
  shows "(x AND NOT (drop_bit k 0xff) = y AND NOT (drop_bit k 0xff))
         = (unat x div 2 ^ (8 - k) = unat y div 2 ^ (8 - k))"
proof -
  have u: "unat (drop_bit j w) = unat w div 2 ^ j" for j and w :: byte
    unfolding unat_drop_bit_eq by (simp add: drop_bit_eq_div)
  have "(drop_bit (8 - k) x = drop_bit (8 - k) y)
        = (unat (drop_bit (8 - k) x) = unat (drop_bit (8 - k) y))"
    by (rule word_unat_eq_iff)
  then show ?thesis
    unfolding byte_mask_eq and_not_mask_eq_iff u using assms by simp
qed

lemma byte_and_ff: "(x :: byte) AND 0xff = x"
  unfolding byte_ff by (rule bit_eqI) (auto simp: bit_simps dest: bit_imp_le_length)

lemma ip_num_less: "ip_num bs < 256 ^ length bs"
proof (induction bs)
  case Nil
  show ?case by simp
next
  case (Cons b bs)
  have "unat b < 256" using unsigned_less[of b, where 'a = nat] by simp
  then have "unat b + 1 \<le> 256" by simp
  then have le: "(unat b + 1) * 256 ^ length bs \<le> 256 * 256 ^ length bs"
    by (rule mult_le_mono1)
  have "unat b * 256 ^ length bs + ip_num bs < unat b * 256 ^ length bs + 256 ^ length bs"
    using Cons.IH by simp
  also have "\<dots> = (unat b + 1) * 256 ^ length bs" by simp
  also note le
  finally show ?case by simp
qed

lemma mask_bytes_zero: "length xs = l \<Longrightarrow> map2 (AND) xs (mask_bytes l 0) = replicate l 0"
proof (induction xs arbitrary: l)
  case Nil
  then show ?case by simp
next
  case (Cons x xs)
  then obtain l' where l: "l = Suc l'" and "length xs = l'" by (cases l) auto
  moreover have z: "(- 256 :: byte) = 0" by simp
  have "x AND - 256 = 0" unfolding z by simp
  ultimately show ?case using Cons.IH[of l'] by simp
qed

lemma length_mask_bytes [simp]: "length (mask_bytes l n) = l"
  by (induction l n rule: mask_bytes.induct) auto

lemma split_digits:
  fixes u v x y K :: nat
  assumes "x < K" "y < K"
  shows "(u * K + x = v * K + y) = (u = v \<and> x = y)"
proof
  assume h: "u * K + x = v * K + y"
  have "(u * K + x) div K = u" "(v * K + y) div K = v" using assms by simp_all
  with h have uv: "u = v" by simp
  with h show "u = v \<and> x = y" by simp
qed simp

lemma masked_compare:
  "length nn = length ip \<Longrightarrow> n \<le> 8 * length ip \<Longrightarrow>
   (map2 (AND) nn (mask_bytes (length ip) n) = map2 (AND) ip (mask_bytes (length ip) n))
   = (ip_num nn div 2 ^ (8 * length ip - n) = ip_num ip div 2 ^ (8 * length ip - n))"
proof (induction ip arbitrary: nn n)
  case Nil
  then show ?case by simp
next
  case (Cons a as)
  then obtain b bs where nn: "nn = b # bs" and len: "length bs = length as"
    by (cases nn) auto
  let ?L = "length as"
  have p256: "(256::nat) ^ ?L = 2 ^ (8 * ?L)"
    by (simp add: power_mult)
  show ?case
  proof (cases "8 \<le> n")
    case True
    let ?j = "8 * ?L - (n - 8)"
    have j: "8 * length (a # as) - n = ?j" using True Cons.prems by simp
    have jle: "?j \<le> 8 * ?L" by simp
    let ?K = "(2::nat) ^ (8 * ?L - ?j)"
    have split: "(2::nat) ^ (8 * ?L) = ?K * 2 ^ ?j"
      using jle by (simp flip: power_add)
    have dv: "(unat c * 256 ^ ?L + ip_num cs) div 2 ^ ?j = unat c * ?K + ip_num cs div 2 ^ ?j"
      for c :: byte and cs
      unfolding p256 split by (simp add: mult.assoc[symmetric])
    have lt: "ip_num cs div 2 ^ ?j < ?K" if "length cs = ?L" for cs
    proof -
      have "ip_num cs < ?K * 2 ^ ?j" using ip_num_less[of cs] that p256 split by simp
      then show ?thesis by (simp add: less_mult_imp_div_less)
    qed
    have IH: "(map2 (AND) bs (mask_bytes ?L (n - 8)) = map2 (AND) as (mask_bytes ?L (n - 8)))
              = (ip_num bs div 2 ^ ?j = ip_num as div 2 ^ ?j)"
      using Cons.IH[of bs "n - 8"] len Cons.prems True by simp
    have "(map2 (AND) nn (mask_bytes (length (a # as)) n)
            = map2 (AND) (a # as) (mask_bytes (length (a # as)) n))
          = (b = a \<and> ip_num bs div 2 ^ ?j = ip_num as div 2 ^ ?j)"
      using True IH by (simp add: nn byte_and_ff)
    also have "\<dots> = (unat b * ?K + ip_num bs div 2 ^ ?j = unat a * ?K + ip_num as div 2 ^ ?j)"
      using split_digits[OF lt[of bs] lt[of as], of "unat b" "unat a"] len
      by (simp add: word_unat_eq_iff)
    also have "\<dots> = (ip_num nn div 2 ^ ?j = ip_num (a # as) div 2 ^ ?j)"
      using dv[of b bs] dv[of a as] len by (simp add: nn)
    finally show ?thesis unfolding j .
  next
    case False
    then have n8: "n < 8" by simp
    have j: "8 * length (a # as) - n = 8 * ?L + (8 - n)" using n8 by simp
    have dv: "(unat c * 256 ^ ?L + ip_num cs) div 2 ^ (8 * ?L + (8 - n)) = unat c div 2 ^ (8 - n)"
      if "length cs = ?L" for c :: byte and cs
    proof -
      have "ip_num cs < 2 ^ (8 * ?L)" using ip_num_less[of cs] that p256 by simp
      then have "(unat c * 2 ^ (8 * ?L) + ip_num cs) div 2 ^ (8 * ?L) = unat c" by simp
      moreover have "(unat c * 2 ^ (8 * ?L) + ip_num cs) div (2 ^ (8 * ?L) * 2 ^ (8 - n))
                     = (unat c * 2 ^ (8 * ?L) + ip_num cs) div 2 ^ (8 * ?L) div 2 ^ (8 - n)"
        by (rule div_mult2_eq)
      ultimately show ?thesis
        unfolding p256 power_add by simp
    qed
    have "(map2 (AND) nn (mask_bytes (length (a # as)) n)
            = map2 (AND) (a # as) (mask_bytes (length (a # as)) n))
          = (b AND NOT (drop_bit n 0xff) = a AND NOT (drop_bit n 0xff))"
      using n8 len by (simp add: nn mask_bytes_zero)
    also have "\<dots> = (unat b div 2 ^ (8 - n) = unat a div 2 ^ (8 - n))"
      using byte_and_mask_byte[of n b a] n8 by simp
    also have "\<dots> = (ip_num nn div 2 ^ (8 * ?L + (8 - n)) = ip_num (a # as) div 2 ^ (8 * ?L + (8 - n)))"
      using dv[of bs b] dv[of as a] len by (simp add: nn)
    finally show ?thesis unfolding j .
  qed
qed

lemma list_all_nth_map2:
  assumes "length nn = length ip" "length m = length ip"
  shows "list_all (\<lambda>i. (nn ! i) AND (m ! i) = (ip ! i) AND (m ! i)) [0..<length ip]
         = (map2 (AND) nn m = map2 (AND) ip m)"
proof -
  have "list_all (\<lambda>i. (nn ! i) AND (m ! i) = (ip ! i) AND (m ! i)) [0..<length ip]
        = (\<forall>i<length ip. (nn ! i) AND (m ! i) = (ip ! i) AND (m ! i))"
    by (auto simp: list_all_iff)
  also have "\<dots> = (\<forall>i<length ip. map2 (AND) nn m ! i = map2 (AND) ip m ! i)"
    using assms by simp
  also have "\<dots> = (map2 (AND) nn m = map2 (AND) ip m)"
    using assms by (simp add: list_eq_iff_nth_eq)
  finally show ?thesis .
qed

lemma map2_and_idem:
  "map2 (AND) (map2 (AND) (xs :: byte list) m) m = map2 (AND) xs m"
  by (induction xs m rule: list_induct2') auto

lemma net_Contains_ParseCIDR:
  assumes len: "length base = 4 \<or> (length base = 16
                  \<and> To4 (map2 (AND) base (mask_bytes (length base) n)) = None)"
    and n: "n \<le> 8 * length base"
  shows "net_Contains (ParseCIDR base n) ip
         = in_cidr base n (case To4 ip of Some ip4 \<Rightarrow> ip4 | None \<Rightarrow> ip)"
proof -
  define l where "l = length base"
  define m where "m = mask_bytes l n"
  define nn where "nn = map2 (AND) base m"
  define ip' where "ip' = (case To4 ip of Some ip4 \<Rightarrow> ip4 | None \<Rightarrow> ip)"
  have l: "l = 4 \<or> l = 16" using len l_def by blast
  have lm: "length m = l" by (simp add: m_def)
  have lnn: "length nn = l" by (simp add: nn_def lm l_def)
  have cm: "CIDRMask n (8 * length base) = m"
    using l n by (auto simp: CIDRMask_def m_def l_def)
  have pc: "ParseCIDR base n = \<lparr> net_IP = nn, net_Mask = m \<rparr>"
    by (simp add: ParseCIDR_def cm nn_def)
  have to4: "(case To4 nn of Some ip4 \<Rightarrow> ip4 | None \<Rightarrow> nn) = nn"
  proof (cases "l = 4")
    case True
    then show ?thesis using lnn by (simp add: To4_def)
  next
    case False
    have "To4 nn = None"
      unfolding nn_def m_def l_def using len False[unfolded l_def] by blast
    then show ?thesis by simp
  qed
  have nm: "networkNumberAndMask (ParseCIDR base n) = (nn, m)"
    unfolding pc using l lnn lm to4
    by (auto simp: networkNumberAndMask_def Let_def split: option.splits)
  have base_num: "ip_num nn div 2 ^ (8 * l - n) = ip_num base div 2 ^ (8 * l - n)"
    using masked_compare[of nn base n] n map2_and_idem[of base m] lnn
    by (simp add: nn_def m_def l_def)
  show ?thesis
  proof (cases "length ip' = l")
    case True
    have "net_Contains (ParseCIDR base n) ip = (map2 (AND) nn m = map2 (AND) ip' m)"
      unfolding net_Contains_def nm Let_def
      using True lnn lm list_all_nth_map2[of nn ip' m] by (simp add: ip'_def)
    also have "\<dots> = (ip_num nn div 2 ^ (8 * l - n) = ip_num ip' div 2 ^ (8 * l - n))"
      using masked_compare[of nn ip' n] True n lnn by (simp add: m_def l_def)
    finally show ?thesis
      unfolding in_cidr_def base_num using True by (auto simp: ip'_def l_def)
  next
    case False
    then show ?thesis
      unfolding net_Contains_def nm Let_def in_cidr_def using lnn by (auto simp: ip'_def l_def)
  qed
qed

lemma v6_blocks:
  "net_Contains (ParseCIDR [0, 0, 0, 0, 0, 0, 0, 0, 0, 0, 0, 0, 0, 0, 0, 1] 128) ip
     = in_cidr [0, 0, 0, 0, 0, 0, 0, 0, 0, 0, 0, 0, 0, 0, 0, 1] 128
         (case To4 ip of Some ip4 \<Rightarrow> ip4 | None \<Rightarrow> ip)"
  "net_Contains (ParseCIDR [0xfc, 0, 0, 0, 0, 0, 0, 0, 0, 0, 0, 0, 0, 0, 0, 0] 7) ip
     = in_cidr [0xfc, 0, 0, 0, 0, 0, 0, 0, 0, 0, 0, 0, 0, 0, 0, 0] 7
         (case To4 ip of Some ip4 \<Rightarrow> ip4 | None \<Rightarrow> ip)"
  "net_Contains (ParseCIDR [0xfe, 0x80, 0, 0, 0, 0, 0, 0, 0, 0, 0, 0, 0, 0, 0, 0] 10) ip
     = in_cidr [0xfe, 0x80, 0, 0, 0, 0, 0, 0, 0, 0, 0, 0, 0, 0, 0, 0] 10
         (case To4 ip of Some ip4 \<Rightarrow> ip4 | None \<Rightarrow> ip)"
  by (rule net_Contains_ParseCIDR; simp add: To4_def)+

lemma isPrivateIP_ranges: "isPrivateIP ip = in_reserved_range ip"
  unfolding isPrivateIP_def in_reserved_range_def privateIPBlocks_def reserved_cidrs_def
  by (simp add: net_Contains_ParseCIDR v6_blocks disj_commute disj_left_commute)

lemma find_isPrivateIP:
  "list_ex in_reserved_range ips \<Longrightarrow> \<exists>ip. find isPrivateIP ips = Some ip"
  by (induction ips) (auto simp: isPrivateIP_ranges)

text \<open>
  Claim C2. With the SSRF check not disabled, \<open>ValidateWebhookURL\<close> returns an error
  whenever the host of the URL does not resolve, or one of the addresses it resolves to
  is reserved (lies in one of the listed ranges or is loopback, link-local or link-local
  multicast), whatever the other addresses are; a URL that does not parse is rejected as
  well. \<open>ValidateWebhookConfig\<close> then returns an error too, and the create and the
  update handler answer 400 with that error and leave the store and the snapshot as
  they were: no row is written.
\<close>

theorem ValidateWebhookURL_rejects:
  "(\<not> disable_ssrf_check e
    \<and> (case url_Hostname e (WebhookURL config) of
          None \<Rightarrow> True
        | Some host \<Rightarrow>
            (case LookupIP e host of
               None \<Rightarrow> True
             | Some ips \<Rightarrow> list_ex in_reserved_range ips))
    \<longrightarrow> ValidateWebhookURL e (WebhookURL config) \<noteq> None
        \<and> (\<exists>err. ValidateWebhookConfig e config = Some err
               \<and> (Method r = ''POST'' \<and> body_config r = Some config
                    \<longrightarrow> handleWebhooks e fs now r s = (SendJSONError [] (Some err) 400, s)))
        \<and> (\<exists>err. ValidateWebhookConfig e (config\<lparr>cfg_ID := webhookID\<rparr>) = Some err
               \<and> (Method r = ''PUT'' \<and> path_id r \<noteq> [] \<and> scanned_id r = Some webhookID
                    \<and> subpath r = [] \<and> body_config r = Some config
                    \<longrightarrow> handleWebhookByID e he fs now r s = (SendJSONError [] (Some err) 400, s))))"
proof
  assume h: "\<not> disable_ssrf_check e
    \<and> (case url_Hostname e (WebhookURL config) of
          None \<Rightarrow> True
        | Some host \<Rightarrow>
            (case LookupIP e host of
               None \<Rightarrow> True
             | Some ips \<Rightarrow> list_ex in_reserved_range ips))"
  have url: "ValidateWebhookURL e (WebhookURL config) \<noteq> None"
  proof (cases "url_Hostname e (WebhookURL config)")
    case None
    with h show ?thesis by (simp add: ValidateWebhookURL_def)
  next
    case (Some host)
    show ?thesis
    proof (cases "LookupIP e host")
      case None
      with h Some show ?thesis by (simp add: ValidateWebhookURL_def)
    next
      case (Some ips)
      with h \<open>url_Hostname e (WebhookURL config) = Some host\<close>
      have "list_ex in_reserved_range ips" by simp
      from find_isPrivateIP[OF this] obtain ip where "find isPrivateIP ips = Some ip" ..
      with h Some \<open>url_Hostname e (WebhookURL config) = Some host\<close>
      show ?thesis by (simp add: ValidateWebhookURL_def)
    qed
  qed
  have cfg: "\<exists>err. ValidateWebhookConfig e c = Some err" if "WebhookURL c = WebhookURL config" for c
    using url that by (auto simp: ValidateWebhookConfig_def split: option.splits)
  from cfg[of config] obtain err where err: "ValidateWebhookConfig e config = Some err" by auto
  from cfg[of "config\<lparr>cfg_ID := webhookID\<rparr>"] obtain err' where
    err': "ValidateWebhookConfig e (config\<lparr>cfg_ID := webhookID\<rparr>) = Some err'" by auto
  have create: "Method r = ''POST'' \<and> body_config r = Some config
        \<longrightarrow> handleWebhooks e fs now r s = (SendJSONError [] (Some err) 400, s)"
    using err by (simp add: handleWebhooks_def)
  have update: "Method r = ''PUT'' \<and> path_id r \<noteq> [] \<and> scanned_id r = Some webhookID
        \<and> subpath r = [] \<and> body_config r = Some config
        \<longrightarrow> handleWebhookByID e he fs now r s = (SendJSONError [] (Some err') 400, s)"
    using err' by (simp add: handleWebhookByID_def Let_def)
  from url err err' create update
  show "ValidateWebhookURL e (WebhookURL config) \<noteq> None
        \<and> (\<exists>err. ValidateWebhookConfig e config = Some err
               \<and> (Method r = ''POST'' \<and> body_config r = Some config
                    \<longrightarrow> handleWebhooks e fs now r s = (SendJSONError [] (Some err) 400, s)))
        \<and> (\<exists>err. ValidateWebhookConfig e (config\<lparr>cfg_ID := webhookID\<rparr>) = Some err
               \<and> (Method r = ''PUT'' \<and> path_id r \<noteq> [] \<and> scanned_id r = Some webhookID
                    \<and> subpath r = [] \<and> body_config r = Some config
                    \<longrightarrow> handleWebhookByID e he fs now r s = (SendJSONError [] (Some err) 400, s)))"
    by blast
qed


theorem ValidateWebhookURL_rejects_witness:
  "\<not> disable_ssrf_check env_ex
   \<and> url_Hostname env_ex (WebhookURL config_ex) = Some ''hooks.example.org''
   \<and> LookupIP env_ex ''hooks.example.org'' = Some [[93, 184, 216, 34], [10, 0, 0, 5]]
   \<and> \<not> in_reserved_range [93, 184, 216, 34]
   \<and> in_reserved_range [10, 0, 0, 5]
   \<and> ValidateWebhookURL env_ex (WebhookURL config_ex) \<noteq> None
   \<and> handleWebhooks env_ex fs_none 50 (request_ex ''POST'' [] []) server_ex
       = (SendJSONError [] (Some (ResolvesToPrivate ''hooks.example.org'' [10, 0, 0, 5])) 400,
          server_ex)"
proof -
  have pub: "\<not> isPrivateIP [93, 184, 216, 34]" by code_simp
  have priv: "isPrivateIP [10, 0, 0, 5]" by code_simp
  have h0: "\<not> disable_ssrf_check env_ex
            \<and> url_Hostname env_ex (WebhookURL config_ex) = Some ''hooks.example.org''
            \<and> LookupIP env_ex ''hooks.example.org'' = Some [[93, 184, 216, 34], [10, 0, 0, 5]]"
    by (simp add: env_ex_def)
  have h: "\<not> disable_ssrf_check env_ex
    \<and> (case url_Hostname env_ex (WebhookURL config_ex) of
          None \<Rightarrow> True
        | Some host \<Rightarrow>
            (case LookupIP env_ex host of
               None \<Rightarrow> True
             | Some ips \<Rightarrow> list_ex in_reserved_range ips))"
    using priv by (simp add: env_ex_def isPrivateIP_ranges)
  have v: "ValidateWebhookConfig env_ex config_ex
             = Some (ResolvesToPrivate ''hooks.example.org'' [10, 0, 0, 5])"
    using pub priv
    by (simp add: ValidateWebhookConfig_def ValidateWebhookURL_def env_ex_def config_ex_def
        HasPrefix_def blockedHosts_def EqualFold_def ToLower_def lower_char_def)
  have req: "Method (request_ex ''POST'' [] []) = ''POST''
             \<and> body_config (request_ex ''POST'' [] []) = Some config_ex"
    by (simp add: request_ex_def)
  from h ValidateWebhookURL_rejects[where e = env_ex and config = config_ex
      and r = "request_ex ''POST'' [] []" and fs = fs_none and now = 50 and s = server_ex]
  have a: "ValidateWebhookURL env_ex (WebhookURL config_ex) \<noteq> None"
    and b: "\<exists>err. ValidateWebhookConfig env_ex config_ex = Some err
               \<and> (Method (request_ex ''POST'' [] []) = ''POST''
                    \<and> body_config (request_ex ''POST'' [] []) = Some config_ex
                    \<longrightarrow> handleWebhooks env_ex fs_none 50 (request_ex ''POST'' [] []) server_ex
                          = (SendJSONError [] (Some err) 400, server_ex))"
    by blast+
  from b v req have c: "handleWebhooks env_ex fs_none 50 (request_ex ''POST'' [] []) server_ex
       = (SendJSONError [] (Some (ResolvesToPrivate ''hooks.example.org'' [10, 0, 0, 5])) 400,
          server_ex)"
    by auto
  from h0 pub priv a c show ?thesis by (simp add: isPrivateIP_ranges)
qed

subsection \<open>Trigger matching\<close>

lemma Contains_Nil [simp]: "Contains s []"
  by (induction s) auto

text \<open>
  Claim C7, as stated, fails: a keyword trigger with the operator \<open>regex\<close> matches an
  empty message text when its pattern matches the empty string, be the pattern empty or
  not. The message here is an image without text.
\<close>

theorem empty_text_matches_regex:
  "matchesTrigger env_ex (keyword_trigger ''.*'' ''regex'') (Info (event_ex ''M1'' 200 []))
     [] ''image'' ''Ann''
   \<and> matchesTrigger env_ex (keyword_trigger [] ''regex'') (Info (event_ex ''M1'' 200 []))
     [] ''image'' ''Ann''"
  by (simp add: matchesTrigger_def matchesString_def env_ex_def keyword_trigger_def
      re_fragment_def re_meta_def)

text \<open>
  Claim C7, amended. A keyword trigger compares against the message text. An empty
  text matches under \<open>exact\<close> and under \<open>contains\<close> exactly when the trigger value is
  empty, under \<open>regex\<close> exactly when the pattern matches the empty string, and under no
  other operator.
\<close>

theorem keyword_empty_text:
  "TriggerType trigger = ''keyword'' \<longrightarrow>
     matchesTrigger e trigger msg content mediaType chatName
       = matchesString e content (TriggerValue trigger) (MatchType trigger)
     \<and> matchesTrigger e trigger msg [] mediaType chatName
       = ((MatchType trigger = ''exact'' \<and> TriggerValue trigger = [])
          \<or> (MatchType trigger = ''contains'' \<and> TriggerValue trigger = [])
          \<or> (MatchType trigger = ''regex''
              \<and> regexp_MatchString e (TriggerValue trigger) [] = Some True))"
  by (auto simp: matchesTrigger_def matchesString_def ToLower_def split: option.splits)

theorem keyword_empty_text_witness:
  "TriggerType (keyword_trigger ''urgent'' ''contains'') = ''keyword''
   \<and> matchesTrigger env_ex (keyword_trigger ''urgent'' ''contains'')
        (Info (event_ex ''M1'' 200 ''This is URGENT!'')) ''This is URGENT!'' [] ''Ann''
   \<and> \<not> matchesTrigger env_ex (keyword_trigger ''urgent'' ''contains'')
        (Info (event_ex ''M1'' 200 [])) [] ''image'' ''Ann''
   \<and> TriggerType (keyword_trigger [] ''contains'') = ''keyword''
   \<and> matchesTrigger env_ex (keyword_trigger [] ''contains'')
        (Info (event_ex ''M1'' 200 [])) [] ''image'' ''Ann''"
proof -
  have k: "TriggerType (keyword_trigger v m) = ''keyword''" for v m
    by (simp add: keyword_trigger_def)
  from k keyword_empty_text[where trigger = "keyword_trigger ''urgent'' ''contains''"
      and e = env_ex and msg = "Info (event_ex ''M1'' 200 ''This is URGENT!'')"
      and content = "''This is URGENT!''" and mediaType = "[]" and chatName = "''Ann''"]
  have a: "matchesTrigger env_ex (keyword_trigger ''urgent'' ''contains'')
        (Info (event_ex ''M1'' 200 ''This is URGENT!'')) ''This is URGENT!'' [] ''Ann''
       = matchesString env_ex ''This is URGENT!'' ''urgent'' ''contains''"
    by (simp add: keyword_trigger_def)
  have a': "matchesString env_ex ''This is URGENT!'' ''urgent'' ''contains''"
    by (simp add: matchesString_def ToLower_def lower_char_def)
  from k keyword_empty_text[where trigger = "keyword_trigger ''urgent'' ''contains''"
      and e = env_ex and msg = "Info (event_ex ''M1'' 200 [])" and content = "[]"
      and mediaType = "''image''" and chatName = "''Ann''"]
  have b: "\<not> matchesTrigger env_ex (keyword_trigger ''urgent'' ''contains'')
        (Info (event_ex ''M1'' 200 [])) [] ''image'' ''Ann''"
    by (simp add: keyword_trigger_def matchesString_def ToLower_def lower_char_def)
  from k keyword_empty_text[where trigger = "keyword_trigger [] ''contains''"
      and e = env_ex and msg = "Info (event_ex ''M1'' 200 [])" and content = "[]"
      and mediaType = "''image''" and chatName = "''Ann''"]
  have c: "matchesTrigger env_ex (keyword_trigger [] ''contains'')
        (Info (event_ex ''M1'' 200 [])) [] ''image'' ''Ann''"
    by (simp add: keyword_trigger_def matchesString_def ToLower_def lower_char_def)
  from k a a' b c show ?thesis by simp
qed

subsection \<open>Delivery\<close>








lemmas deliver_eval = DeliverWebhook_def deliver_loop.simps attempt_log_def sendHTTPRequest_def
  StoreWebhookLog_def he_ex_def config1_def payload_ex_def keyword_trigger_def empty_store_def
  maxRetries_def backoffIntervals_def Let_def new_logs_def generateHMACSignature_def




text \<open>
  Claim C8 against the code. \<open>sendHTTPRequest\<close> reads the body with a single \<open>Read\<close>
  into a buffer of 1024 bytes. For a 2048-byte body that arrives in four parts of 512
  bytes, the response body returned, and persisted in the log row of the delivery to a
  stored configuration, has 512 bytes.
\<close>

theorem response_body_short_read:
  "chunked_2048 1 = Response 200 [replicate 512 (CHR ''x''), replicate 512 (CHR ''x''),
                                  replicate 512 (CHR ''x''), replicate 512 (CHR ''x'')]
   \<and> length (concat [replicate 512 (CHR ''x''), replicate 512 (CHR ''x''),
                       replicate 512 (CHR ''x''), replicate 512 (CHR ''x'')]) = 2048
   \<and> sendHTTPRequest (he_ex chunked_2048) 1 config1 ''{}''
       = (True, 200, replicate 512 (CHR ''x''))
   \<and> map (\<lambda>l. length (ResponseBody l))
        (new_logs store_ex (d_store (DeliverWebhook (he_ex chunked_2048) no_faults config1
           payload_ex ''M1'' ''111@s.whatsapp.net'' (keyword_trigger ''urgent'' ''contains'')
           store_ex)))
       = [512]"
  by (simp add: deliver_eval chunked_2048_def no_faults_def store_ex_def row_ex_def log_ex_def
      trigger_ex_def)

subsection \<open>The webhook handlers and the secret\<close>

lemma masked_response_has_no_secret_token:
  "json_field ''secret_token'' (json_WebhookConfigResponse (ToResponse c)) = None"
  by (simp add: json_WebhookConfigResponse_def)



end
